theory Spec2Isabelle
  imports Complex_Main
begin

section \<open>Python values used by the server manager\<close>

text \<open>
  A Python \<open>dict\<close> keeps its keys in insertion order; assigning to a key that is present
  replaces the value where the key stands, assigning to a new key appends it. The model is
  an association list with exactly these operations.
\<close>

type_synonym ('k, 'v) dict = "('k \<times> 'v) list"

definition dict_has :: "('k, 'v) dict \<Rightarrow> 'k \<Rightarrow> bool" where
  "dict_has d k = (k \<in> set (map fst d))"

definition dict_get :: "('k, 'v) dict \<Rightarrow> 'k \<Rightarrow> 'v option" where
  "dict_get d k = map_of d k"

fun dict_set :: "('k, 'v) dict \<Rightarrow> 'k \<Rightarrow> 'v \<Rightarrow> ('k, 'v) dict" where
  "dict_set [] k v = [(k, v)]"
| "dict_set ((k', v') # d) k v =
     (if k' = k then (k', v) # d else (k', v') # dict_set d k v)"

definition dict_del :: "('k, 'v) dict \<Rightarrow> 'k \<Rightarrow> ('k, 'v) dict" where
  "dict_del d k = filter (\<lambda>kv. fst kv \<noteq> k) d"

definition dict_keys :: "('k, 'v) dict \<Rightarrow> 'k list" where
  "dict_keys d = map fst d"

text \<open>\<open>str(n)\<close> for an integer: the decimal digits, with a minus sign below zero.\<close>

definition digit_char :: "int \<Rightarrow> char" where
  "digit_char d =
     (if d = 0 then CHR ''0'' else if d = 1 then CHR ''1'' else if d = 2 then CHR ''2''
      else if d = 3 then CHR ''3'' else if d = 4 then CHR ''4'' else if d = 5 then CHR ''5''
      else if d = 6 then CHR ''6'' else if d = 7 then CHR ''7'' else if d = 8 then CHR ''8''
      else CHR ''9'')"

function str_digits :: "int \<Rightarrow> string" where
  "str_digits n =
     (if n < 10 then [digit_char n] else str_digits (n div 10) @ [digit_char (n mod 10)])"
  by pat_completeness auto
termination
  by (relation "measure nat") auto

declare str_digits.simps [simp del]

definition str_int :: "int \<Rightarrow> string" where
  "str_int i = (if i < 0 then CHR ''-'' # str_digits (- i) else str_digits i)"

text \<open>
  \<open>str.strip()\<close> removes white space from both ends. Characters are taken as code points
  below 256; the white space among them is 9 to 13, 28 to 32, 133 and 160.
\<close>

definition isspace :: "char \<Rightarrow> bool" where
  "isspace c = (let n = (of_char c :: nat) in
     (9 \<le> n \<and> n \<le> 13) \<or> (28 \<le> n \<and> n \<le> 32) \<or> n = 133 \<or> n = 160)"

definition strip :: "string \<Rightarrow> string" where
  "strip s = rev (dropWhile isspace (rev (dropWhile isspace s)))"

definition startswith :: "string \<Rightarrow> string \<Rightarrow> bool" where
  "startswith s p = (take (length p) s = p)"

definition newline :: char where
  "newline = CHR 0x0A"

text \<open>A name between apostrophes, as the messages show it.\<close>

definition quoted :: "string \<Rightarrow> string" where
  "quoted s = [CHR 0x27] @ s @ [CHR 0x27]"

text \<open>
  Iterating over a text file yields its lines. Python's universal newlines end a line at
  \<open>\n\<close>, \<open>\r\<close> and \<open>\r\n\<close>; the model breaks at every \<open>\n\<close> and every \<open>\r\<close>, which
  differs only by empty lines, and every reader below strips each line and skips
  the ones without \<open>=\<close>.
\<close>

fun split_lines :: "string \<Rightarrow> string \<Rightarrow> string list" where
  "split_lines acc [] = [rev acc]"
| "split_lines acc (c # cs) =
     (if c = CHR 0x0A \<or> c = CHR 0x0D then rev acc # split_lines [] cs
      else split_lines (c # acc) cs)"

section \<open>Data model\<close>

datatype ServerStatus = STOPPED | STARTING | RUNNING | STOPPING | CRASHED | ERROR

text \<open>The \<open>.value\<close> of each member of the enumeration.\<close>

fun status_value :: "ServerStatus \<Rightarrow> string" where
  "status_value STOPPED = ''stopped''"
| "status_value STARTING = ''starting''"
| "status_value RUNNING = ''running''"
| "status_value STOPPING = ''stopping''"
| "status_value CRASHED = ''crashed''"
| "status_value ERROR = ''error''"

text \<open>
  The dataclass \<open>ServerConfig\<close>. \<open>status\<close> is a string, as in the source.
  \<open>last_started\<close> is a Python float read from the clock; a finite float is a rational
  number, and the manager only stores and copies it.
\<close>

record ServerConfig =
  name :: string
  version :: string
  memory :: int
  port :: int
  modpack_url :: "string option"
  server_file_url :: "string option"
  status :: string
  pid :: "int option"
  last_started :: "rat option"
  restart_count :: int
  crash_count :: int

text \<open>
  The constructor call \<open>ServerConfig(name=..., version=..., memory=..., port=...,
  modpack_url=..., server_file_url=None)\<close> of \<open>create_server\<close>, with the defaults of the
  dataclass for the fields it does not pass.
\<close>

definition new_ServerConfig ::
  "string \<Rightarrow> string \<Rightarrow> int \<Rightarrow> int \<Rightarrow> string option \<Rightarrow> ServerConfig" where
  "new_ServerConfig nm ver mem prt url =
     \<lparr>name = nm, version = ver, memory = mem, port = prt, modpack_url = url,
      server_file_url = None, status = status_value STOPPED, pid = None,
      last_started = None, restart_count = 0, crash_count = 0\<rparr>"

subsection \<open>JSON documents\<close>

text \<open>
  What \<open>json.dump\<close> writes and \<open>json.load\<close> reads back is modelled as the document
  itself: null, booleans, integers, floats, strings, arrays, and objects whose members
  keep their order (Python builds a \<open>dict\<close> from them).
\<close>

datatype json =
    JNull
  | JBool bool
  | JInt int
  | JFloat rat
  | JStr string
  | JArr "json list"
  | JObj "(string \<times> json) list"

datatype error =
    JSONDecodeError
  | AttributeError
  | TypeError
  | FieldType string
  | OSError
  | ProcessLookupError

definition bind_result :: "error + 'a \<Rightarrow> ('a \<Rightarrow> error + 'b) \<Rightarrow> error + 'b" where
  "bind_result r f = (case r of Inl e \<Rightarrow> Inl e | Inr x \<Rightarrow> f x)"

definition json_opt :: "('a \<Rightarrow> json) \<Rightarrow> 'a option \<Rightarrow> json" where
  "json_opt f v = (case v of None \<Rightarrow> JNull | Some x \<Rightarrow> f x)"

text \<open>\<open>dataclasses.asdict\<close>: the fields in declaration order.\<close>

definition asdict :: "ServerConfig \<Rightarrow> (string, json) dict" where
  "asdict s =
     [(''name'', JStr (name s)),
      (''version'', JStr (version s)),
      (''memory'', JInt (memory s)),
      (''port'', JInt (port s)),
      (''modpack_url'', json_opt JStr (modpack_url s)),
      (''server_file_url'', json_opt JStr (server_file_url s)),
      (''status'', JStr (status s)),
      (''pid'', json_opt JInt (pid s)),
      (''last_started'', json_opt JFloat (last_started s)),
      (''restart_count'', JInt (restart_count s)),
      (''crash_count'', JInt (crash_count s))]"

definition field_names :: "string list" where
  "field_names = [''name'', ''version'', ''memory'', ''port'', ''modpack_url'',
     ''server_file_url'', ''status'', ''pid'', ''last_started'', ''restart_count'',
     ''crash_count'']"

text \<open>
  \<open>ServerConfig(**data)\<close>. A key that is no field, or a missing \<open>name\<close>, \<open>version\<close> or
  \<open>memory\<close>, raises \<open>TypeError\<close>; the other fields have defaults. Python stores whatever
  value the document holds; the record is typed, so a value of another JSON type than
  the field's annotation ends the model with \<open>FieldType\<close>.
\<close>

definition field_str :: "(string, json) dict \<Rightarrow> string \<Rightarrow> string option \<Rightarrow> error + string" where
  "field_str data k dflt =
     (case dict_get data k of
        None \<Rightarrow> (case dflt of None \<Rightarrow> Inl TypeError | Some d \<Rightarrow> Inr d)
      | Some (JStr s) \<Rightarrow> Inr s
      | Some _ \<Rightarrow> Inl (FieldType k))"

definition field_int :: "(string, json) dict \<Rightarrow> string \<Rightarrow> int option \<Rightarrow> error + int" where
  "field_int data k dflt =
     (case dict_get data k of
        None \<Rightarrow> (case dflt of None \<Rightarrow> Inl TypeError | Some d \<Rightarrow> Inr d)
      | Some (JInt i) \<Rightarrow> Inr i
      | Some _ \<Rightarrow> Inl (FieldType k))"

definition field_opt_str :: "(string, json) dict \<Rightarrow> string \<Rightarrow> error + string option" where
  "field_opt_str data k =
     (case dict_get data k of
        None \<Rightarrow> Inr None
      | Some JNull \<Rightarrow> Inr None
      | Some (JStr s) \<Rightarrow> Inr (Some s)
      | Some _ \<Rightarrow> Inl (FieldType k))"

definition field_opt_int :: "(string, json) dict \<Rightarrow> string \<Rightarrow> error + int option" where
  "field_opt_int data k =
     (case dict_get data k of
        None \<Rightarrow> Inr None
      | Some JNull \<Rightarrow> Inr None
      | Some (JInt i) \<Rightarrow> Inr (Some i)
      | Some _ \<Rightarrow> Inl (FieldType k))"

definition field_opt_float :: "(string, json) dict \<Rightarrow> string \<Rightarrow> error + rat option" where
  "field_opt_float data k =
     (case dict_get data k of
        None \<Rightarrow> Inr None
      | Some JNull \<Rightarrow> Inr None
      | Some (JFloat x) \<Rightarrow> Inr (Some x)
      | Some _ \<Rightarrow> Inl (FieldType k))"

definition ServerConfig_from :: "(string, json) dict \<Rightarrow> error + ServerConfig" where
  "ServerConfig_from data =
     (if \<not> set (dict_keys data) \<subseteq> set field_names then Inl TypeError
      else
        bind_result (field_str data ''name'' None) (\<lambda>f_name.
        bind_result (field_str data ''version'' None) (\<lambda>f_version.
        bind_result (field_int data ''memory'' None) (\<lambda>f_memory.
        bind_result (field_int data ''port'' (Some 25565)) (\<lambda>f_port.
        bind_result (field_opt_str data ''modpack_url'') (\<lambda>f_modpack.
        bind_result (field_opt_str data ''server_file_url'') (\<lambda>f_file.
        bind_result (field_str data ''status'' (Some (status_value STOPPED))) (\<lambda>f_status.
        bind_result (field_opt_int data ''pid'') (\<lambda>f_pid.
        bind_result (field_opt_float data ''last_started'') (\<lambda>f_started.
        bind_result (field_int data ''restart_count'' (Some 0)) (\<lambda>f_restarts.
        bind_result (field_int data ''crash_count'' (Some 0)) (\<lambda>f_crashes.
          Inr \<lparr>name = f_name, version = f_version, memory = f_memory, port = f_port,
               modpack_url = f_modpack, server_file_url = f_file, status = f_status,
               pid = f_pid, last_started = f_started, restart_count = f_restarts,
               crash_count = f_crashes\<rparr>))))))))))))"

subsection \<open>JSON text\<close>

text \<open>
  The text that \<open>json.dump(states, f, indent=2)\<close> writes for a document. Strings are
  escaped as \<open>ensure_ascii\<close> does: the quotation mark, the backslash and the short
  escapes, and \<open>\u00XX\<close> for every other character outside space to tilde. A
  non-empty array or object puts each item on a line of its own, two more spaces in than
  its bracket, with \<open>,\<close> between items and \<open>: \<close> after a key. The text of a float is
  Python's \<open>float.__repr__\<close>, which is a parameter here.
\<close>

definition hex_digit :: "nat \<Rightarrow> char" where
  "hex_digit n = ''0123456789abcdef'' ! (n mod 16)"

definition escape_char :: "char \<Rightarrow> string" where
  "escape_char c =
     (let n = (of_char c :: nat) in
      if n = 34 then [CHR 0x5C, CHR 0x22]
      else if n = 92 then [CHR 0x5C, CHR 0x5C]
      else if n = 8 then [CHR 0x5C, CHR ''b'']
      else if n = 12 then [CHR 0x5C, CHR ''f'']
      else if n = 10 then [CHR 0x5C, CHR ''n'']
      else if n = 13 then [CHR 0x5C, CHR ''r'']
      else if n = 9 then [CHR 0x5C, CHR ''t'']
      else if n < 32 \<or> 126 < n
      then [CHR 0x5C, CHR ''u'', CHR ''0'', CHR ''0'', hex_digit (n div 16), hex_digit n]
      else [c])"

definition json_string :: "string \<Rightarrow> string" where
  "json_string s = [CHR 0x22] @ concat (map escape_char s) @ [CHR 0x22]"

definition newline_indent :: "nat \<Rightarrow> string" where
  "newline_indent level = newline # replicate (2 * level) CHR '' ''"

fun join :: "string \<Rightarrow> string list \<Rightarrow> string" where
  "join sep [] = []"
| "join sep [x] = x"
| "join sep (x # y # ys) = x @ sep @ join sep (y # ys)"

fun json_text :: "(rat \<Rightarrow> string) \<Rightarrow> nat \<Rightarrow> json \<Rightarrow> string" where
  "json_text float_repr level JNull = ''null''"
| "json_text float_repr level (JBool b) = (if b then ''true'' else ''false'')"
| "json_text float_repr level (JInt i) = str_int i"
| "json_text float_repr level (JFloat x) = float_repr x"
| "json_text float_repr level (JStr s) = json_string s"
| "json_text float_repr level (JArr xs) =
     (if xs = [] then ''[]''
      else ''['' @ newline_indent (Suc level)
           @ join ('','' @ newline_indent (Suc level)) (map (json_text float_repr (Suc level)) xs)
           @ newline_indent level @ '']'')"
| "json_text float_repr level (JObj members) =
     (if members = [] then ''{}''
      else ''{'' @ newline_indent (Suc level)
           @ join ('','' @ newline_indent (Suc level))
               (map (\<lambda>(k, v). json_string k @ '': '' @ json_text float_repr (Suc level) v)
                  members)
           @ newline_indent level @ ''}'')"

section \<open>The manager and its environment\<close>

text \<open>
  The state file \<open>server_states.json\<close>: absent, holding a text that is cut off
  before its end, or holding the complete text of a document. The cut-off text is
  empty right after \<open>open(state_file, 'w')\<close>. \<open>json.load\<close> raises on a cut-off text:
  the text of an object ends with the brace that closes it.
\<close>

datatype disk_file = Partial_file string | Json_file json

abbreviation Empty_file :: disk_file where
  "Empty_file \<equiv> Partial_file []"

text \<open>
  A server's directory: the text of \<open>server.properties\<close> when that file exists, and
  whether \<open>eula.txt\<close> exists.
\<close>

record server_dir =
  server_properties :: "string option"
  eula_txt :: bool

text \<open>
  A child process as the manager sees it: its process id, the return code (\<open>None\<close> while
  it runs) and what it wrote to standard error. A process object is addressed by its
  position in \<open>procs\<close>; \<open>start_server\<close> and the monitor task each keep such a reference.
\<close>

record process =
  proc_pid :: int
  returncode :: "int option"
  stderr_data :: string

text \<open>
  A task running \<open>monitor_server(name)\<close>: the name, the process object it polls, and
  whether it has finished (left its loop or was cancelled).
\<close>

record monitor_task =
  task_name :: string
  task_process :: nat
  task_done :: bool

record manager =
  port_min :: int
  port_max :: int
  max_concurrent :: int
  default_memory :: int
  servers :: "(string, ServerConfig) dict"
  processes :: "(string, nat) dict"
  console_outputs :: "(string, unit) dict"
  monitoring_tasks :: "(string, nat) dict"
  allocated_ports :: "(int, string) dict"
  lock :: bool
  state_file :: "disk_file option"
  server_dirs :: "(string, server_dir) dict"
  procs :: "process list"
  tasks :: "monitor_task list"

section \<open>State store\<close>

text \<open>
  \<open>save_server_states\<close> opens the state file with mode \<open>'w'\<close>, which creates or
  truncates it in place, and then dumps the document into it.
\<close>

definition states_document :: "manager \<Rightarrow> json" where
  "states_document m = JObj (map (\<lambda>(nm, server). (nm, JObj (asdict server))) (servers m))"

definition open_w :: "manager \<Rightarrow> manager" where
  "open_w m = m\<lparr>state_file := Some Empty_file\<rparr>"

definition json_dump :: "json \<Rightarrow> manager \<Rightarrow> manager" where
  "json_dump doc m = m\<lparr>state_file := Some (Json_file doc)\<rparr>"

definition save_server_states :: "manager \<Rightarrow> manager" where
  "save_server_states m = json_dump (states_document m) (open_w m)"

text \<open>
  The contents of the disk that a reader, or a crash, can meet while a save runs.
  \<open>json.dump\<close> hands the text to the file object piece by piece, and the I/O layer
  writes to the disk each time its buffer has filled (with the default buffer, the first
  time after some 8 KiB) and at the close. How much text each of these writes carries is
  the I/O layer's matter: \<open>sizes\<close> lists it. \<open>flush_states\<close> gives the text on disk after
  each write that leaves text to be written; the write that completes the text is the
  last one.
\<close>

fun flush_states :: "string \<Rightarrow> string \<Rightarrow> nat list \<Rightarrow> string list" where
  "flush_states written rest [] = []"
| "flush_states written rest (n # sizes) =
     (if length rest \<le> n then []
      else (written @ take n rest)
           # flush_states (written @ take n rest) (drop n rest) sizes)"

definition save_server_states_trace :: "(rat \<Rightarrow> string) \<Rightarrow> nat list \<Rightarrow> manager \<Rightarrow> manager list" where
  "save_server_states_trace float_repr sizes m =
     open_w m
     # map (\<lambda>s. m\<lparr>state_file := Some (Partial_file s)\<rparr>)
         (flush_states [] (json_text float_repr 0 (states_document m)) sizes)
     @ [json_dump (states_document m) (open_w m)]"

text \<open>
  \<open>load_server_states\<close>: nothing when the file does not exist; otherwise every member of
  the document becomes a descriptor, and the port of a descriptor whose status is
  \<open>running\<close> is entered into the allocation table.
\<close>

fun load_items :: "(string \<times> json) list \<Rightarrow> manager \<Rightarrow> error + manager" where
  "load_items [] m = Inr m"
| "load_items ((nm, data) # rest) m =
     (case data of
        JObj members \<Rightarrow>
          (case ServerConfig_from members of
             Inl e \<Rightarrow> Inl e
           | Inr server \<Rightarrow>
               load_items rest
                 (let m1 = m\<lparr>servers := dict_set (servers m) nm server\<rparr>
                  in if status server = status_value RUNNING
                     then m1\<lparr>allocated_ports := dict_set (allocated_ports m1) (port server) nm\<rparr>
                     else m1))
      | _ \<Rightarrow> Inl TypeError)"

definition load_server_states :: "manager \<Rightarrow> error + manager" where
  "load_server_states m =
     (case state_file m of
        None \<Rightarrow> Inr m
      | Some (Partial_file _) \<Rightarrow> Inl JSONDecodeError
      | Some (Json_file (JObj states)) \<Rightarrow> load_items states m
      | Some (Json_file _) \<Rightarrow> Inl AttributeError)"

text \<open>
  \<open>__init__\<close> keeps the configuration, starts with empty dictionaries and a free lock,
  and loads the state file. The disk is the one it finds; the process objects and tasks
  of an earlier manager are not its own.
\<close>

definition init_state :: "manager \<Rightarrow> manager" where
  "init_state m =
     m\<lparr>servers := [], processes := [], console_outputs := [], monitoring_tasks := [],
       allocated_ports := [], lock := False, procs := [], tasks := []\<rparr>"

definition init_manager :: "manager \<Rightarrow> error + manager" where
  "init_manager m = load_server_states (init_state m)"

section \<open>Port allocator\<close>

text \<open>
  \<open>allocate_port\<close> walks \<open>range(port_min, port_max + 1)\<close> and returns the first port that
  is not a key of the table. The manager is returned with the result, as the method
  receives \<open>self\<close>.
\<close>

fun first_free :: "(int, string) dict \<Rightarrow> int list \<Rightarrow> int option" where
  "first_free t [] = None"
| "first_free t (p # ps) = (if \<not> dict_has t p then Some p else first_free t ps)"

definition allocate_port :: "manager \<Rightarrow> int option \<times> manager" where
  "allocate_port m = (first_free (allocated_ports m) [port_min m..port_max m], m)"

definition release_port :: "int \<Rightarrow> manager \<Rightarrow> manager" where
  "release_port p m =
     (if dict_has (allocated_ports m) p
      then m\<lparr>allocated_ports := dict_del (allocated_ports m) p\<rparr>
      else m)"

section \<open>Server properties\<close>

definition properties_text :: "manager \<Rightarrow> string \<Rightarrow> string option" where
  "properties_text m nm =
     (case dict_get (server_dirs m) nm of
        None \<Rightarrow> None
      | Some d \<Rightarrow> server_properties d)"

text \<open>The reading loop: one dictionary assignment for each line that holds an \<open>=\<close> and
  is no comment; \<open>line.split('=', 1)\<close> cuts at the first \<open>=\<close>.\<close>

fun read_properties :: "string list \<Rightarrow> (string, string) dict \<Rightarrow> (string, string) dict" where
  "read_properties [] properties = properties"
| "read_properties (l # ls) properties =
     (let line = strip l in
      if CHR ''='' \<in> set line \<and> \<not> startswith line ''#''
      then read_properties ls
             (dict_set properties (takeWhile (\<lambda>c. c \<noteq> CHR ''='') line)
                (tl (dropWhile (\<lambda>c. c \<noteq> CHR ''='') line)))
      else read_properties ls properties)"

definition parse_properties :: "string \<Rightarrow> (string, string) dict" where
  "parse_properties text = read_properties (split_lines [] text) []"

definition write_properties :: "(string, string) dict \<Rightarrow> string" where
  "write_properties properties = concat (map (\<lambda>(k, v). k @ ''='' @ v @ [newline]) properties)"

definition update_server_properties ::
  "string \<Rightarrow> string \<Rightarrow> string \<Rightarrow> manager \<Rightarrow> bool \<times> manager" where
  "update_server_properties nm property_name val m =
     (if \<not> dict_has (servers m) nm then (False, m)
      else
        (case dict_get (server_dirs m) nm of
           None \<Rightarrow> (False, m)
         | Some d \<Rightarrow>
             (case server_properties d of
                None \<Rightarrow> (False, m)
              | Some text \<Rightarrow>
                  (let properties = dict_set (parse_properties text) property_name val
                   in (True, m\<lparr>server_dirs := dict_set (server_dirs m) nm
                          (d\<lparr>server_properties := Some (write_properties properties)\<rparr>)\<rparr>)))))"

section \<open>Lifecycle operations\<close>

text \<open>
  \<open>server = self.servers[name]\<close> is a reference to the descriptor object held by the
  dictionary, so an assignment to one of its attributes changes the dictionary's entry.
  The model changes the entry under the name. (A coroutine that keeps the reference
  across a wait would write to an object no longer in the dictionary if the name were
  deleted meanwhile; the model then changes nothing.)
\<close>

definition modify_server :: "string \<Rightarrow> (ServerConfig \<Rightarrow> ServerConfig) \<Rightarrow> manager \<Rightarrow> manager" where
  "modify_server nm f m =
     m\<lparr>servers := map (\<lambda>(k, s). if k = nm then (k, f s) else (k, s)) (servers m)\<rparr>"

definition get_running_count :: "manager \<Rightarrow> int" where
  "get_running_count m =
     int (length (filter (\<lambda>s. status s = status_value RUNNING) (map snd (servers m))))"

subsection \<open>Create\<close>

text \<open>
  The artifact step is the environment's: whether it succeeded, the message it gave (the
  returned message of \<open>download_curseforge_server\<close>, or the text of the exception of
  \<open>download_vanilla_server\<close>), and the \<open>server.properties\<close> that an extracted server
  pack brought, if any.
\<close>

record download =
  dl_success :: bool
  dl_message :: string
  dl_properties :: "string option"

definition mkdir_server_dir :: "string \<Rightarrow> manager \<Rightarrow> manager" where
  "mkdir_server_dir nm m =
     (if dict_has (server_dirs m) nm then m
      else m\<lparr>server_dirs := dict_set (server_dirs m) nm
               \<lparr>server_properties = None, eula_txt = False\<rparr>\<rparr>)"

definition extract_pack :: "string \<Rightarrow> download \<Rightarrow> manager \<Rightarrow> manager" where
  "extract_pack nm dl m =
     (case dl_properties dl of
        None \<Rightarrow> m
      | Some text \<Rightarrow>
          (case dict_get (server_dirs m) nm of
             None \<Rightarrow> m
           | Some d \<Rightarrow>
               m\<lparr>server_dirs := dict_set (server_dirs m) nm
                    (d\<lparr>server_properties := Some text\<rparr>)\<rparr>))"

text \<open>Python's truth value of \<open>modpack_url\<close> and of \<open>memory\<close>.\<close>

definition truthy_url :: "string option \<Rightarrow> bool" where
  "truthy_url url = (case url of None \<Rightarrow> False | Some s \<Rightarrow> s \<noteq> [])"

definition memory_or_default :: "int option \<Rightarrow> manager \<Rightarrow> int" where
  "memory_or_default memory_arg m =
     (case memory_arg of
        None \<Rightarrow> default_memory m
      | Some x \<Rightarrow> if x = 0 then default_memory m else x)"

text \<open>
  \<open>create_server\<close> runs under \<open>async with self.lock\<close> and waits for the download in the
  middle. The first part ends by returning a failure, by waiting for the lock, or at
  the download with the lock held; the second part runs after the download.
\<close>

datatype create_progress =
    Create_waits_for_lock
  | Create_returned bool string
  | Create_downloads ServerConfig

definition create_server_begin ::
  "string \<Rightarrow> string \<Rightarrow> int option \<Rightarrow> string option \<Rightarrow> manager \<Rightarrow> create_progress \<times> manager" where
  "create_server_begin nm ver memory_arg url m =
     (if lock m then (Create_waits_for_lock, m)
      else if dict_has (servers m) nm
      then (Create_returned False (''Server '' @ quoted nm @ '' already exists''), m)
      else if get_running_count m \<ge> max_concurrent m
      then (Create_returned False
              (''Maximum concurrent servers ('' @ str_int (max_concurrent m) @ '') reached''), m)
      else
        (case allocate_port m of
           (None, m1) \<Rightarrow> (Create_returned False ''No available ports in configured range'', m1)
         | (Some prt, m1) \<Rightarrow>
             (Create_downloads (new_ServerConfig nm ver (memory_or_default memory_arg m1) prt url),
              (mkdir_server_dir nm m1)\<lparr>lock := True\<rparr>)))"

definition create_server_commit :: "string \<Rightarrow> ServerConfig \<Rightarrow> manager \<Rightarrow> (bool \<times> string) \<times> manager" where
  "create_server_commit nm server m =
     (let m1 = (if properties_text m nm \<noteq> None
                then snd (update_server_properties nm ''server-port'' (str_int (port server)) m)
                else m);
          m2 = m1\<lparr>servers := dict_set (servers m1) nm server\<rparr>;
          m3 = m2\<lparr>allocated_ports := dict_set (allocated_ports m2) (port server) nm\<rparr>;
          m4 = save_server_states m3
      in ((True, ''Server '' @ quoted nm @ '' created successfully on port '' @ str_int (port server)),
          m4\<lparr>lock := False\<rparr>))"

definition create_server_end ::
  "string \<Rightarrow> ServerConfig \<Rightarrow> string option \<Rightarrow> download \<Rightarrow> manager \<Rightarrow> (bool \<times> string) \<times> manager" where
  "create_server_end nm server url dl m =
     (if truthy_url url then
        (let m1 = extract_pack nm dl m in
         if \<not> dl_success dl
         then ((False, dl_message dl @ [newline, newline]
                  @ ''Please run the command again with the direct server pack URL: /create ''
                  @ nm @ '' <server_file_url>''),
               (release_port (port server) m1)\<lparr>lock := False\<rparr>)
         else create_server_commit nm server m1)
      else if \<not> dl_success dl
      then ((False, ''Failed to create server: '' @ dl_message dl),
            (release_port (port server) m)\<lparr>lock := False\<rparr>)
      else create_server_commit nm server m)"

text \<open>A whole call with nothing else running in between; \<open>None\<close> while the lock is held
  by another call.\<close>

definition create_server ::
  "string \<Rightarrow> string \<Rightarrow> int option \<Rightarrow> string option \<Rightarrow> download \<Rightarrow> manager
     \<Rightarrow> (bool \<times> string) option \<times> manager" where
  "create_server nm ver memory_arg url dl m =
     (case create_server_begin nm ver memory_arg url m of
        (Create_waits_for_lock, m1) \<Rightarrow> (None, m1)
      | (Create_returned ok msg, m1) \<Rightarrow> (Some (ok, msg), m1)
      | (Create_downloads server, m1) \<Rightarrow>
          (case create_server_end nm server url dl m1 of (r, m2) \<Rightarrow> (Some r, m2)))"

subsection \<open>Processes and monitors\<close>

definition proc_returncode :: "manager \<Rightarrow> nat \<Rightarrow> int option" where
  "proc_returncode m h = (if h < length (procs m) then returncode (procs m ! h) else None)"

definition proc_stderr :: "manager \<Rightarrow> nat \<Rightarrow> string" where
  "proc_stderr m h = (if h < length (procs m) then stderr_data (procs m ! h) else [])"

text \<open>The environment ends a running process with a return code and its error output.\<close>

definition process_exits :: "nat \<Rightarrow> int \<Rightarrow> string \<Rightarrow> manager \<Rightarrow> manager" where
  "process_exits h code err m =
     (if h < length (procs m) \<and> returncode (procs m ! h) = None
      then m\<lparr>procs := (procs m)[h := (procs m ! h)\<lparr>returncode := Some code, stderr_data := err\<rparr>]\<rparr>
      else m)"

definition mark_crashed :: "ServerConfig \<Rightarrow> ServerConfig" where
  "mark_crashed s = s\<lparr>status := status_value CRASHED, crash_count := crash_count s + 1\<rparr>"

text \<open>
  One turn of the loop of \<open>monitor_server\<close> in task \<open>i\<close>: when the process has a return
  code the descriptor is marked crashed, the state is saved and the loop ends; otherwise
  the task sleeps until its next turn. \<open>notify_crash\<close> only builds a message, which the
  monitor drops.
\<close>

definition monitor_server_turn :: "nat \<Rightarrow> manager \<Rightarrow> manager" where
  "monitor_server_turn i m =
     (if i < length (tasks m) \<and> \<not> task_done (tasks m ! i)
         \<and> proc_returncode m (task_process (tasks m ! i)) \<noteq> None
      then
        (let m1 = modify_server (task_name (tasks m ! i)) mark_crashed m;
             m2 = save_server_states m1
         in m2\<lparr>tasks := (tasks m2)[i := (tasks m2 ! i)\<lparr>task_done := True\<rparr>]\<rparr>)
      else m)"

text \<open>What can happen while an operation sleeps: a process ends, a monitor takes a turn.\<close>

datatype event = Process_exits nat int string | Monitor_turn nat

fun run_event :: "event \<Rightarrow> manager \<Rightarrow> manager" where
  "run_event (Process_exits h code err) m = process_exits h code err m"
| "run_event (Monitor_turn i) m = monitor_server_turn i m"

fun run_events :: "event list \<Rightarrow> manager \<Rightarrow> manager" where
  "run_events [] m = m"
| "run_events (e # es) m = run_events es (run_event e m)"

subsection \<open>Start\<close>

text \<open>
  \<open>start_server\<close> up to its \<open>asyncio.sleep(5)\<close>. \<open>spawn\<close> is the process id of the child
  that \<open>create_subprocess_shell\<close> started, or \<open>None\<close> when it raised; \<open>now\<close> is the
  clock. Writing \<open>eula.txt\<close> raises when the directory does not exist.
\<close>

datatype start_progress =
    Start_raised error
  | Start_returned bool string
  | Start_sleeps nat

definition start_server_begin ::
  "string \<Rightarrow> int option \<Rightarrow> rat \<Rightarrow> manager \<Rightarrow> start_progress \<times> manager" where
  "start_server_begin nm spawn now m =
     (case dict_get (servers m) nm of
        None \<Rightarrow> (Start_returned False (''Server '' @ quoted nm @ '' does not exist''), m)
      | Some server \<Rightarrow>
          if status server = status_value RUNNING
          then (Start_returned False (''Server '' @ quoted nm @ '' is already running''), m)
          else
            (case dict_get (server_dirs m) nm of
               None \<Rightarrow> (Start_raised OSError, m)
             | Some d \<Rightarrow>
                 (let m1 = m\<lparr>server_dirs := dict_set (server_dirs m) nm (d\<lparr>eula_txt := True\<rparr>)\<rparr>
                  in case spawn of
                       None \<Rightarrow> (Start_raised OSError, m1)
                     | Some new_pid \<Rightarrow>
                         (let h = length (procs m1);
                              m2 = m1\<lparr>procs := procs m1 @
                                     [\<lparr>proc_pid = new_pid, returncode = None, stderr_data = []\<rparr>]\<rparr>;
                              m3 = m2\<lparr>processes := dict_set (processes m2) nm h\<rparr>;
                              m4 = m3\<lparr>console_outputs := dict_set (console_outputs m3) nm ()\<rparr>;
                              m5 = modify_server nm
                                     (\<lambda>s. s\<lparr>pid := Some new_pid, status := status_value STARTING,
                                            last_started := Some now\<rparr>) m4;
                              m6 = save_server_states m5;
                              t = length (tasks m6);
                              m7 = m6\<lparr>tasks := tasks m6 @
                                     [\<lparr>task_name = nm, task_process = h, task_done = False\<rparr>]\<rparr>;
                              m8 = m7\<lparr>monitoring_tasks := dict_set (monitoring_tasks m7) nm t\<rparr>
                          in (Start_sleeps h, m8)))))"

text \<open>After the sleep: the process \<open>h\<close> that this call started is looked at once.\<close>

definition start_server_end :: "string \<Rightarrow> nat \<Rightarrow> manager \<Rightarrow> (bool \<times> string) \<times> manager" where
  "start_server_end nm h m =
     (if proc_returncode m h \<noteq> None
      then ((False, ''Server failed to start: '' @ proc_stderr m h),
            save_server_states (modify_server nm mark_crashed m))
      else ((True, ''Server '' @ quoted nm @ '' started''),
            save_server_states
              (modify_server nm (\<lambda>s. s\<lparr>status := status_value RUNNING\<rparr>) m)))"

text \<open>A whole call; \<open>window\<close> is what happens during the five seconds of sleep.\<close>

definition start_server ::
  "string \<Rightarrow> int option \<Rightarrow> rat \<Rightarrow> event list \<Rightarrow> manager \<Rightarrow> (error + bool \<times> string) \<times> manager" where
  "start_server nm spawn now window m =
     (case start_server_begin nm spawn now m of
        (Start_raised e, m1) \<Rightarrow> (Inl e, m1)
      | (Start_returned ok msg, m1) \<Rightarrow> (Inr (ok, msg), m1)
      | (Start_sleeps h, m1) \<Rightarrow>
          (case start_server_end nm h (run_events window m1) of (r, m2) \<Rightarrow> (Inr r, m2)))"

subsection \<open>Stop and restart\<close>

text \<open>
  \<open>stop_server\<close>: \<open>terminate()\<close> raises \<open>ProcessLookupError\<close> on a process that has
  already ended (the model takes the transport as closed once the return code is set).
  The signals themselves change nothing the manager holds: the end of the process is the
  environment's event, in \<open>window\<close> (the second of sleep) or later. \<open>process.wait()\<close> is
  not awaited.
\<close>

definition stop_server_finish :: "string \<Rightarrow> manager \<Rightarrow> (error + bool \<times> string) \<times> manager" where
  "stop_server_finish nm m =
     (Inr (True, ''Server '' @ quoted nm @ '' stopped''),
      save_server_states
        (modify_server nm (\<lambda>s. s\<lparr>status := status_value STOPPED, pid := None\<rparr>) m))"

definition stop_server ::
  "string \<Rightarrow> event list \<Rightarrow> manager \<Rightarrow> (error + bool \<times> string) \<times> manager" where
  "stop_server nm window m =
     (case dict_get (servers m) nm of
        None \<Rightarrow> (Inr (False, ''Server '' @ quoted nm @ '' does not exist''), m)
      | Some server \<Rightarrow>
          if status server \<noteq> status_value RUNNING
          then (Inr (False, ''Server '' @ quoted nm @ '' is not running''), m)
          else
            (case dict_get (processes m) nm of
               None \<Rightarrow> stop_server_finish nm m
             | Some h \<Rightarrow>
                 if proc_returncode m h \<noteq> None then (Inl ProcessLookupError, m)
                 else stop_server_finish nm (run_events window m)))"

text \<open>\<open>restart_server\<close>: stop, five seconds of sleep (\<open>settle\<close>), start.\<close>

definition restart_server ::
  "string \<Rightarrow> event list \<Rightarrow> event list \<Rightarrow> int option \<Rightarrow> rat \<Rightarrow> event list \<Rightarrow> manager
     \<Rightarrow> (error + bool \<times> string) \<times> manager" where
  "restart_server nm stop_window settle spawn now start_window m =
     (case stop_server nm stop_window m of
        (Inl e, m1) \<Rightarrow> (Inl e, m1)
      | (Inr (stopped, msg), m1) \<Rightarrow>
          if \<not> stopped then (Inr (False, msg), m1)
          else start_server nm spawn now start_window (run_events settle m1))"

subsection \<open>Delete\<close>

text \<open>
  \<open>task.cancel()\<close> ends the monitor task. \<open>delete_server\<close> stops a running server
  first (dropping the result), forgets the process, the console queue and the monitor
  task registered under the name, cancels that task, removes the directory, releases the
  descriptor's port, removes the descriptor and saves.
\<close>

definition cancel_task :: "nat \<Rightarrow> manager \<Rightarrow> manager" where
  "cancel_task t m =
     (if t < length (tasks m)
      then m\<lparr>tasks := (tasks m)[t := (tasks m ! t)\<lparr>task_done := True\<rparr>]\<rparr>
      else m)"

definition delete_server_finish ::
  "string \<Rightarrow> ServerConfig \<Rightarrow> manager \<Rightarrow> (error + bool \<times> string) \<times> manager" where
  "delete_server_finish nm server m =
     (let m1 = m\<lparr>processes := dict_del (processes m) nm\<rparr>;
          m2 = m1\<lparr>console_outputs := dict_del (console_outputs m1) nm\<rparr>;
          m3 = (case dict_get (monitoring_tasks m2) nm of
                  None \<Rightarrow> m2
                | Some t \<Rightarrow>
                    (cancel_task t m2)\<lparr>monitoring_tasks := dict_del (monitoring_tasks m2) nm\<rparr>);
          m4 = m3\<lparr>server_dirs := dict_del (server_dirs m3) nm\<rparr>;
          m5 = release_port (port server) m4;
          m6 = m5\<lparr>servers := dict_del (servers m5) nm\<rparr>
      in (Inr (True, ''Server '' @ quoted nm @ '' deleted''), save_server_states m6))"

definition delete_server ::
  "string \<Rightarrow> event list \<Rightarrow> manager \<Rightarrow> (error + bool \<times> string) \<times> manager" where
  "delete_server nm window m =
     (case dict_get (servers m) nm of
        None \<Rightarrow> (Inr (False, ''Server '' @ quoted nm @ '' does not exist''), m)
      | Some server \<Rightarrow>
          if status server = status_value RUNNING
          then (case stop_server nm window m of
                  (Inl e, m1) \<Rightarrow> (Inl e, m1)
                | (Inr _, m1) \<Rightarrow> delete_server_finish nm server m1)
          else delete_server_finish nm server m)"

section \<open>Observations\<close>

text \<open>Reading one descriptor of the fleet.\<close>

definition status_of :: "manager \<Rightarrow> string \<Rightarrow> string option" where
  "status_of m nm = map_option status (dict_get (servers m) nm)"

definition crash_count_of :: "manager \<Rightarrow> string \<Rightarrow> int option" where
  "crash_count_of m nm = map_option crash_count (dict_get (servers m) nm)"

definition restart_count_of :: "manager \<Rightarrow> string \<Rightarrow> int option" where
  "restart_count_of m nm = map_option restart_count (dict_get (servers m) nm)"

definition port_of :: "manager \<Rightarrow> string \<Rightarrow> int option" where
  "port_of m nm = map_option port (dict_get (servers m) nm)"

text \<open>The restart counters of the whole fleet, in the order of the descriptors.\<close>

definition restart_counts :: "manager \<Rightarrow> (string \<times> int) list" where
  "restart_counts m = map (\<lambda>(k, s). (k, restart_count s)) (servers m)"

text \<open>
  Keys and values that the reading loop gives back as they were written: a key without
  \<open>=\<close> and without line breaks that does not begin with white space or \<open>#\<close>, and a
  value without line breaks that does not end with white space.
\<close>

definition line_break :: "char \<Rightarrow> bool" where
  "line_break c = (c = CHR 0x0A \<or> c = CHR 0x0D)"

definition clean_key :: "string \<Rightarrow> bool" where
  "clean_key k =
     (CHR ''='' \<notin> set k \<and> \<not> list_ex line_break k
      \<and> (case k of [] \<Rightarrow> True | c # _ \<Rightarrow> \<not> isspace c \<and> c \<noteq> CHR ''#''))"

definition clean_value :: "string \<Rightarrow> bool" where
  "clean_value v =
     (\<not> list_ex line_break v \<and> (case rev v of [] \<Rightarrow> True | c # _ \<Rightarrow> \<not> isspace c))"

definition clean_properties :: "(string, string) dict \<Rightarrow> bool" where
  "clean_properties d = list_all (\<lambda>(k, v). clean_key k \<and> clean_value v) d"

text \<open>What the reading loop of \<open>update_server_properties\<close> reads from a server's file.\<close>

definition read_back :: "manager \<Rightarrow> string \<Rightarrow> (string, string) dict option" where
  "read_back m nm = map_option parse_properties (properties_text m nm)"

section \<open>Example fleets\<close>

text \<open>
  A manager for the ports 25565 to 25567 that has created the server \<open>alpha\<close>, whose
  \<open>server.properties\<close> has two lines; and the same manager with every port of its range
  claimed.
\<close>

definition alpha_server :: ServerConfig where
  "alpha_server = new_ServerConfig ''alpha'' ''1.20.4'' 2048 25565 None"

definition alpha_properties :: string where
  "alpha_properties = ''motd=hello'' @ [newline] @ ''server-port=25565'' @ [newline]"

definition example_fleet :: manager where
  "example_fleet =
     \<lparr>port_min = 25565, port_max = 25567, max_concurrent = 2, default_memory = 2048,
      servers = [(''alpha'', alpha_server)], processes = [], console_outputs = [],
      monitoring_tasks = [], allocated_ports = [(25565, ''alpha'')], lock = False,
      state_file = Some (Json_file (JObj [(''alpha'', JObj (asdict alpha_server))])),
      server_dirs = [(''alpha'',
        \<lparr>server_properties = Some alpha_properties, eula_txt = False\<rparr>)],
      procs = [], tasks = []\<rparr>"

definition crowded_fleet :: manager where
  "crowded_fleet =
     example_fleet\<lparr>allocated_ports :=
       [(25565, ''alpha''), (25566, ''beta''), (25567, ''gamma'')]\<rparr>"

text \<open>
  The call \<open>create_server('beta', 'modpack', None, url)\<close> on the example fleet: once with
  a server pack that brings its own \<open>server.properties\<close>, once with a failing download;
  and a call for a vanilla server whose download raises.
\<close>

definition pack_download :: download where
  "pack_download =
     \<lparr>dl_success = True, dl_message = ''Server pack downloaded and extracted'',
      dl_properties = Some (''server-port=25565'' @ [newline])\<rparr>"

definition failed_download :: download where
  "failed_download =
     \<lparr>dl_success = False, dl_message = ''Could not find server pack on CurseForge page'',
      dl_properties = None\<rparr>"

definition created_beta :: "(bool \<times> string) option \<times> manager" where
  "created_beta =
     create_server ''beta'' ''modpack'' None (Some ''https://example.org/pack'')
       pack_download example_fleet"

definition failed_beta :: "(bool \<times> string) option \<times> manager" where
  "failed_beta =
     create_server ''beta'' ''modpack'' None (Some ''https://example.org/pack'')
       failed_download example_fleet"

definition failed_vanilla :: "(bool \<times> string) option \<times> manager" where
  "failed_vanilla =
     create_server ''gamma'' ''1.20.4'' (Some 4096) None
       (failed_download\<lparr>dl_message := ''Failed to download vanilla server: HTTP 404''\<rparr>)
       example_fleet"

text \<open>
  \<open>alpha\<close> started with process id 4242 and confirmed running; and the fleet at the
  moment a call \<open>create_server('beta', 'modpack', None, url)\<close> waits for its download.
\<close>

definition running_fleet :: manager where
  "running_fleet = snd (start_server ''alpha'' (Some 4242) 1000 [] example_fleet)"

definition creating_fleet :: manager where
  "creating_fleet =
     snd (create_server_begin ''beta'' ''modpack'' None (Some ''https://example.org/pack'')
            example_fleet)"

text \<open>
  Starting \<open>alpha\<close> when its process ends with code 1 during the five seconds: once with
  a turn of the monitor inside the window, once with the monitor's turn after
  \<open>start_server\<close> has returned.
\<close>

definition crashed_start :: "(error + bool \<times> string) \<times> manager" where
  "crashed_start =
     start_server ''alpha'' (Some 4242) 1000 [Process_exits 0 1 ''boom'', Monitor_turn 0]
       example_fleet"

definition crashed_start_late_monitor :: "(error + bool \<times> string) \<times> manager" where
  "crashed_start_late_monitor =
     start_server ''alpha'' (Some 4242) 1000 [Process_exits 0 1 ''boom''] example_fleet"

text \<open>
  Stopping, restarting and deleting the running \<open>alpha\<close>; its process ends on the signal
  with code -15, and the process of the restart has id 4243 and stays up.
\<close>

definition stopped_alpha :: "(error + bool \<times> string) \<times> manager" where
  "stopped_alpha = stop_server ''alpha'' [Process_exits 0 (- 15) []] running_fleet"

definition restarted_alpha :: "(error + bool \<times> string) \<times> manager" where
  "restarted_alpha =
     restart_server ''alpha'' [Process_exits 0 (- 15) []] [] (Some 4243) 1010 [] running_fleet"

definition deleted_alpha :: "(error + bool \<times> string) \<times> manager" where
  "deleted_alpha = delete_server ''alpha'' [Process_exits 0 (- 15) []] running_fleet"

text \<open>
  \<open>start_server('alpha')\<close> entered while the creation of \<open>beta\<close> holds the lock, and a
  second \<open>start_server('alpha')\<close> entered while the first one sleeps.
\<close>

definition start_during_create :: "start_progress \<times> manager" where
  "start_during_create = start_server_begin ''alpha'' (Some 4242) 1000 creating_fleet"

definition double_start :: "start_progress \<times> manager" where
  "double_start =
     start_server_begin ''alpha'' (Some 4243) 1001
       (snd (start_server_begin ''alpha'' (Some 4242) 1000 example_fleet))"

text \<open>The example fleet after \<open>update_server_properties('alpha', key, value)\<close>.\<close>

definition alpha_update :: "string \<Rightarrow> string \<Rightarrow> manager" where
  "alpha_update key val = snd (update_server_properties ''alpha'' key val example_fleet)"

text \<open>
  Python's text of a float with a whole value (below \<open>10^16\<close>), which is what the clock
  values of the examples are.
\<close>

definition whole_float_repr :: "rat \<Rightarrow> string" where
  "whole_float_repr x = str_int \<lfloor>x\<rfloor> @ ''.0''"

text \<open>
  A save of the running fleet whose text reaches the disk in pieces of 100 characters:
  what is on disk at the first observable moment, and after the second piece.
\<close>

definition flushed_save :: "manager list" where
  "flushed_save = save_server_states_trace whole_float_repr [100, 100] running_fleet"

definition during_save :: manager where
  "during_save = hd flushed_save"

definition during_flush :: manager where
  "during_flush = flushed_save ! 2"

section \<open>Port allocator: properties\<close>

lemma first_free_None_iff: "first_free t ps = None \<longleftrightarrow> (\<forall>p \<in> set ps. dict_has t p)"
  by (induction ps) auto

lemma first_free_Some_free: "first_free t ps = Some p \<Longrightarrow> p \<in> set ps \<and> \<not> dict_has t p"
  by (induction ps) (auto split: if_splits)

lemma first_free_upto_lowest:
  "first_free t [a..b] = Some p \<Longrightarrow> a \<le> q \<Longrightarrow> q < p \<Longrightarrow> dict_has t q"
proof (induction a b rule: upto.induct)
  case (1 i j)
  show ?case
  proof (cases "i \<le> j")
    case False
    with "1.prems" show ?thesis by simp
  next
    case True
    then have unfold: "[i..j] = i # [i + 1..j]" by (simp add: upto_rec1)
    show ?thesis
    proof (cases "dict_has t i")
      case False
      with "1.prems" unfold show ?thesis by simp
    next
      case claimed: True
      with "1.prems" unfold have rest: "first_free t [i + 1..j] = Some p" by simp
      show ?thesis
      proof (cases "q = i")
        case True
        with claimed show ?thesis by simp
      next
        case False
        with "1.prems" have "i + 1 \<le> q" by simp
        with "1.IH" [OF True rest] "1.prems" show ?thesis by simp
      qed
    qed
  qed
qed

lemma dict_del_absent: "\<not> dict_has d k \<Longrightarrow> dict_del d k = d"
  by (induction d) (auto simp: dict_has_def dict_del_def)

lemma dict_has_del: "dict_has (dict_del d k) k' \<longleftrightarrow> (dict_has d k' \<and> k' \<noteq> k)"
  by (induction d) (auto simp: dict_has_def dict_del_def)

lemma release_port_unclaimed: "\<not> dict_has (allocated_ports m) p \<Longrightarrow> release_port p m = m"
  by (simp add: release_port_def)

lemma release_port_frees: "\<not> dict_has (allocated_ports (release_port p m)) p"
  by (simp add: release_port_def dict_has_del)

lemma release_port_others:
  "q \<noteq> p \<Longrightarrow> dict_has (allocated_ports (release_port p m)) q = dict_has (allocated_ports m) q"
  by (simp add: release_port_def dict_has_del)

lemma release_port_range:
  "port_min (release_port p m) = port_min m \<and> port_max (release_port p m) = port_max m"
  by (simp add: release_port_def)

text \<open>
  C5. For every state of the allocation table, \<open>allocate_port\<close> returns the lowest port of
  \<open>[port_min, port_max]\<close> that is not claimed, and \<open>None\<close> exactly when every port of the
  range is claimed; a returned port lies in the range. Releasing a port that is not
  claimed leaves the manager as it is. After \<open>release_port r\<close> for a port \<open>r\<close> of the range
  the next \<open>allocate_port\<close> finds a port, at most \<open>r\<close>, and it is \<open>r\<close> itself when every
  lower port of the range is claimed.
\<close>

theorem allocate_port_lowest_free:
  "(case fst (allocate_port m) of
      None \<Rightarrow> \<forall>q. port_min m \<le> q \<and> q \<le> port_max m \<longrightarrow> dict_has (allocated_ports m) q
    | Some p \<Rightarrow> port_min m \<le> p \<and> p \<le> port_max m \<and> \<not> dict_has (allocated_ports m) p
        \<and> (\<forall>q. port_min m \<le> q \<and> q < p \<longrightarrow> dict_has (allocated_ports m) q))
   \<and> (\<not> dict_has (allocated_ports m) r \<longrightarrow> release_port r m = m)
   \<and> (port_min m \<le> r \<and> r \<le> port_max m \<longrightarrow>
        (\<exists>p. fst (allocate_port (release_port r m)) = Some p \<and> p \<le> r)
        \<and> ((\<forall>q. port_min m \<le> q \<and> q < r \<longrightarrow> dict_has (allocated_ports m) q)
             \<longrightarrow> fst (allocate_port (release_port r m)) = Some r))"
proof (intro conjI)
  show "case fst (allocate_port m) of
      None \<Rightarrow> \<forall>q. port_min m \<le> q \<and> q \<le> port_max m \<longrightarrow> dict_has (allocated_ports m) q
    | Some p \<Rightarrow> port_min m \<le> p \<and> p \<le> port_max m \<and> \<not> dict_has (allocated_ports m) p
        \<and> (\<forall>q. port_min m \<le> q \<and> q < p \<longrightarrow> dict_has (allocated_ports m) q)"
  proof (cases "first_free (allocated_ports m) [port_min m..port_max m]")
    case None
    then have "\<forall>p \<in> set [port_min m..port_max m]. dict_has (allocated_ports m) p"
      by (simp only: first_free_None_iff)
    with None show ?thesis by (simp add: allocate_port_def)
  next
    case (Some p)
    from first_free_Some_free [OF Some] first_free_upto_lowest [OF Some]
    show ?thesis using Some by (simp add: allocate_port_def)
  qed
next
  show "\<not> dict_has (allocated_ports m) r \<longrightarrow> release_port r m = m"
    by (simp add: release_port_unclaimed)
next
  show "port_min m \<le> r \<and> r \<le> port_max m \<longrightarrow>
        (\<exists>p. fst (allocate_port (release_port r m)) = Some p \<and> p \<le> r)
        \<and> ((\<forall>q. port_min m \<le> q \<and> q < r \<longrightarrow> dict_has (allocated_ports m) q)
             \<longrightarrow> fst (allocate_port (release_port r m)) = Some r)"
  proof (intro impI)
    assume range: "port_min m \<le> r \<and> r \<le> port_max m"
    let ?m = "release_port r m"
    let ?t = "allocated_ports ?m"
    have free: "\<not> dict_has ?t r" by (rule release_port_frees)
    from range have "r \<in> set [port_min m..port_max m]" by simp
    with free have "first_free ?t [port_min m..port_max m] \<noteq> None"
      by (auto simp: first_free_None_iff)
    then obtain p where p: "first_free ?t [port_min m..port_max m] = Some p" by auto
    have p_le: "p \<le> r"
    proof (rule ccontr)
      assume "\<not> p \<le> r"
      with range first_free_upto_lowest [OF p, of r] free show False by simp
    qed
    have alloc: "fst (allocate_port ?m) = Some p"
      using p by (simp add: allocate_port_def release_port_range)
    have p_free: "\<not> dict_has ?t p" and p_min: "port_min m \<le> p"
      using first_free_Some_free [OF p] by simp_all
    show "(\<exists>p. fst (allocate_port ?m) = Some p \<and> p \<le> r)
        \<and> ((\<forall>q. port_min m \<le> q \<and> q < r \<longrightarrow> dict_has (allocated_ports m) q)
             \<longrightarrow> fst (allocate_port ?m) = Some r)"
    proof (intro conjI impI)
      show "\<exists>p. fst (allocate_port ?m) = Some p \<and> p \<le> r" using alloc p_le by blast
    next
      assume below: "\<forall>q. port_min m \<le> q \<and> q < r \<longrightarrow> dict_has (allocated_ports m) q"
      have "p = r"
      proof (rule ccontr)
        assume neq: "p \<noteq> r"
        with p_le have "p < r" by simp
        with below p_min have "dict_has (allocated_ports m) p" by blast
        with neq p_free show False by (simp add: release_port_others)
      qed
      with alloc show "fst (allocate_port ?m) = Some r" by simp
    qed
  qed
qed

theorem allocate_port_lowest_free_witness:
  "fst (allocate_port crowded_fleet) = None
   \<and> release_port 25567 example_fleet = example_fleet
   \<and> fst (allocate_port (release_port 25566 crowded_fleet)) = Some 25566"
proof -
  have range: "port_min crowded_fleet = 25565" "port_max crowded_fleet = 25567"
    by (simp_all add: crowded_fleet_def example_fleet_def)
  have table: "allocated_ports crowded_fleet
                 = [(25565, ''alpha''), (25566, ''beta''), (25567, ''gamma'')]"
    by (simp add: crowded_fleet_def)
  have unclaimed: "\<not> dict_has (allocated_ports example_fleet) 25567"
    by (simp add: example_fleet_def dict_has_def)
  have in_range: "port_min crowded_fleet \<le> 25566 \<and> 25566 \<le> port_max crowded_fleet"
    by (simp add: range)
  have below: "\<forall>q. port_min crowded_fleet \<le> q \<and> q < 25566
                 \<longrightarrow> dict_has (allocated_ports crowded_fleet) q"
  proof (intro allI impI)
    fix q :: int
    assume "port_min crowded_fleet \<le> q \<and> q < 25566"
    then have "q = 25565" by (simp add: range)
    then show "dict_has (allocated_ports crowded_fleet) q" by (simp add: table dict_has_def)
  qed
  have first: "fst (allocate_port crowded_fleet) = None"
    by (simp add: allocate_port_def range table dict_has_def upto_rec1)
  from allocate_port_lowest_free [of example_fleet 25567] unclaimed
  have second: "release_port 25567 example_fleet = example_fleet" by blast
  from allocate_port_lowest_free [of crowded_fleet 25566] in_range below
  have third: "fst (allocate_port (release_port 25566 crowded_fleet)) = Some 25566" by blast
  from first second third show ?thesis by blast
qed

section \<open>Create: properties\<close>

lemma update_server_properties_unknown:
  "\<not> dict_has (servers m) nm \<Longrightarrow> update_server_properties nm k v m = (False, m)"
  by (simp add: update_server_properties_def)

lemma mkdir_server_dir_frame:
  "servers (mkdir_server_dir nm m) = servers m"
  "allocated_ports (mkdir_server_dir nm m) = allocated_ports m"
  "state_file (mkdir_server_dir nm m) = state_file m"
  by (simp_all add: mkdir_server_dir_def)

lemma extract_pack_frame:
  "servers (extract_pack nm dl m) = servers m"
  "allocated_ports (extract_pack nm dl m) = allocated_ports m"
  "state_file (extract_pack nm dl m) = state_file m"
  by (simp_all add: extract_pack_def split: option.splits)

lemma release_port_frame:
  "servers (release_port p m) = servers m"
  "state_file (release_port p m) = state_file m"
  by (simp_all add: release_port_def)

lemma release_port_table_unclaimed:
  "\<not> dict_has (allocated_ports m) p \<Longrightarrow> allocated_ports (release_port p m) = allocated_ports m"
  by (simp add: release_port_def)

lemma allocate_port_Some_unclaimed:
  "fst (allocate_port m) = Some p \<Longrightarrow> \<not> dict_has (allocated_ports m) p"
  using first_free_Some_free [of "allocated_ports m" "[port_min m..port_max m]" p]
  by (simp add: allocate_port_def)

lemma create_server_begin_downloads:
  assumes "\<not> lock m" "\<not> dict_has (servers m) nm" "get_running_count m < max_concurrent m"
    and "fst (allocate_port m) = Some p"
  shows "create_server_begin nm ver mem url m =
    (Create_downloads (new_ServerConfig nm ver (memory_or_default mem m) p url),
     (mkdir_server_dir nm m)\<lparr>lock := True\<rparr>)"
  using assms by (simp add: create_server_begin_def allocate_port_def)

lemma create_server_end_failure:
  assumes "\<not> dl_success dl" "\<not> dict_has (allocated_ports m) (port server)"
  shows "\<exists>msg m'. create_server_end nm server url dl m = ((False, msg), m')
           \<and> servers m' = servers m \<and> allocated_ports m' = allocated_ports m
           \<and> state_file m' = state_file m \<and> \<not> lock m'"
  using assms
  by (simp add: create_server_end_def Let_def release_port_frame extract_pack_frame
      release_port_table_unclaimed)

text \<open>
  C3. When the checks of \<open>create_server\<close> pass (the lock is free, the name is new, the
  count of running servers is below the ceiling, a port is available) and the artifact
  step fails (the mod-pack download returns a failure, or the vanilla download raises),
  the call returns a failure, and the descriptor map, the port allocation table and the
  state file are exactly as before the call; the port that was picked is not claimed and
  the lock is free again.
\<close>

theorem create_server_artifact_failure:
  assumes "\<not> lock m" and "\<not> dict_has (servers m) nm"
    and "get_running_count m < max_concurrent m"
    and "fst (allocate_port m) = Some p"
    and "\<not> dl_success dl"
  shows "\<exists>msg m'. create_server nm ver mem url dl m = (Some (False, msg), m')
           \<and> servers m' = servers m \<and> allocated_ports m' = allocated_ports m
           \<and> state_file m' = state_file m
           \<and> \<not> dict_has (allocated_ports m') p \<and> \<not> lock m'"
proof -
  let ?server = "new_ServerConfig nm ver (memory_or_default mem m) p url"
  let ?m1 = "(mkdir_server_dir nm m)\<lparr>lock := True\<rparr>"
  have unclaimed: "\<not> dict_has (allocated_ports m) p"
    using assms(4) by (rule allocate_port_Some_unclaimed)
  have first_part: "create_server_begin nm ver mem url m = (Create_downloads ?server, ?m1)"
    using assms(1-4) by (rule create_server_begin_downloads)
  have "\<not> dict_has (allocated_ports ?m1) (port ?server)"
    using unclaimed by (simp add: mkdir_server_dir_frame new_ServerConfig_def)
  from create_server_end_failure [OF assms(5) this, of nm url]
  obtain msg m' where second_part: "create_server_end nm ?server url dl ?m1 = ((False, msg), m')"
    and frame: "servers m' = servers ?m1" "allocated_ports m' = allocated_ports ?m1"
      "state_file m' = state_file ?m1" "\<not> lock m'"
    by blast
  have "create_server nm ver mem url dl m = (Some (False, msg), m')"
    by (simp add: create_server_def first_part second_part)
  with frame unclaimed show ?thesis by (simp add: mkdir_server_dir_frame)
qed

theorem create_server_artifact_failure_witness:
  "(\<exists>msg m'. failed_beta = (Some (False, msg), m')
       \<and> servers m' = servers example_fleet
       \<and> allocated_ports m' = allocated_ports example_fleet
       \<and> state_file m' = state_file example_fleet
       \<and> \<not> dict_has (allocated_ports m') 25566 \<and> \<not> lock m')
   \<and> (\<exists>msg m'. failed_vanilla = (Some (False, msg), m')
       \<and> servers m' = servers example_fleet
       \<and> allocated_ports m' = allocated_ports example_fleet
       \<and> state_file m' = state_file example_fleet
       \<and> \<not> dict_has (allocated_ports m') 25566 \<and> \<not> lock m')"
proof -
  have free: "\<not> lock example_fleet" by code_simp
  have new_beta: "\<not> dict_has (servers example_fleet) ''beta''" by code_simp
  have new_gamma: "\<not> dict_has (servers example_fleet) ''gamma''" by code_simp
  have room: "get_running_count example_fleet < max_concurrent example_fleet" by code_simp
  have picked: "fst (allocate_port example_fleet) = Some 25566" by code_simp
  have failed: "\<not> dl_success failed_download" by code_simp
  have failed': "\<not> dl_success
     (failed_download\<lparr>dl_message := ''Failed to download vanilla server: HTTP 404''\<rparr>)"
    by code_simp
  show ?thesis
    unfolding failed_beta_def failed_vanilla_def
    using create_server_artifact_failure [OF free new_beta room picked failed]
      create_server_artifact_failure [OF free new_gamma room picked failed']
    by blast
qed

lemma update_server_properties_frame:
  "servers (snd (update_server_properties nm k v m)) = servers m"
  "allocated_ports (snd (update_server_properties nm k v m)) = allocated_ports m"
  by (simp_all add: update_server_properties_def Let_def split: option.splits)

lemma save_server_states_frame:
  "servers (save_server_states m) = servers m"
  "allocated_ports (save_server_states m) = allocated_ports m"
  "server_dirs (save_server_states m) = server_dirs m"
  "procs (save_server_states m) = procs m"
  "tasks (save_server_states m) = tasks m"
  "processes (save_server_states m) = processes m"
  "lock (save_server_states m) = lock m"
  by (simp_all add: save_server_states_def json_dump_def open_w_def)

lemma create_server_commit_table:
  "allocated_ports (snd (create_server_commit nm server m))
     = dict_set (allocated_ports m) (port server) nm"
  by (simp add: create_server_commit_def Let_def save_server_states_frame
      update_server_properties_frame)

lemma create_server_commit_properties:
  "\<not> dict_has (servers m) nm \<Longrightarrow>
     server_dirs (snd (create_server_commit nm server m)) = server_dirs m"
  by (simp add: create_server_commit_def Let_def save_server_states_frame
      update_server_properties_unknown)

lemma create_server_end_success_table:
  assumes "create_server_end nm server url dl m = ((True, msg), m')"
  shows "allocated_ports m' = dict_set (allocated_ports m) (port server) nm"
proof -
  have ok: "dl_success dl"
    using assms by (auto simp: create_server_end_def Let_def split: if_splits)
  show ?thesis
  proof (cases "truthy_url url")
    case True
    with ok assms have "m' = snd (create_server_commit nm server (extract_pack nm dl m))"
      by (simp add: create_server_end_def Let_def)
    then show ?thesis by (simp add: create_server_commit_table extract_pack_frame)
  next
    case False
    with ok assms have "m' = snd (create_server_commit nm server m)"
      by (simp add: create_server_end_def)
    then show ?thesis by (simp add: create_server_commit_table)
  qed
qed

lemma create_server_success_table:
  assumes "fst (allocate_port m) = Some p"
    and "create_server nm ver mem url dl m = (Some (True, msg), m')"
  shows "allocated_ports m' = dict_set (allocated_ports m) p nm"
proof -
  let ?server = "new_ServerConfig nm ver (memory_or_default mem m) p url"
  let ?m1 = "(mkdir_server_dir nm m)\<lparr>lock := True\<rparr>"
  from assms have first_part: "create_server_begin nm ver mem url m = (Create_downloads ?server, ?m1)"
    by (auto simp: create_server_def create_server_begin_def allocate_port_def
        split: if_splits)
  with assms(2) have "create_server_end nm ?server url dl ?m1 = ((True, msg), m')"
    by (auto simp: create_server_def split: prod.splits)
  from create_server_end_success_table [OF this]
  show ?thesis by (simp add: mkdir_server_dir_frame new_ServerConfig_def)
qed

text \<open>
  C4 (evaluation). \<open>create_server('beta', 'modpack', None, url)\<close> on the example fleet,
  with a server pack whose \<open>server.properties\<close> says \<open>server-port=25565\<close>: the call
  succeeds, the new descriptor is persisted as stopped on port 25566, and the file still
  says \<open>server-port=25565\<close>. \<open>update_server_properties\<close> is called before the descriptor
  is entered into \<open>servers\<close> and returns at its first check.
\<close>

theorem create_server_port_not_applied:
  "fst created_beta
     = Some (True, ''Server '' @ quoted ''beta'' @ '' created successfully on port 25566'')
   \<and> port_of (snd created_beta) ''beta'' = Some 25566
   \<and> status_of (snd created_beta) ''beta'' = Some (status_value STOPPED)
   \<and> state_file (snd created_beta) = Some (Json_file (states_document (snd created_beta)))
   \<and> properties_text (snd created_beta) ''beta'' = Some (''server-port=25565'' @ [newline])"
  by code_simp

text \<open>
  C10. \<open>allocate_port\<close> returns the manager as it received it, so a second call right
  after the first returns the same port; the port it returns is not a key of the table
  after the call. In \<open>create_server\<close> the port enters the table only by the assignment
  \<open>self.allocated_ports[port] = name\<close> of a successful call: the table is then the old
  table with that one entry set.
\<close>

theorem allocate_port_is_query:
  "snd (allocate_port m) = m
   \<and> allocate_port (snd (allocate_port m)) = allocate_port m
   \<and> (\<forall>p. fst (allocate_port m) = Some p
          \<longrightarrow> \<not> dict_has (allocated_ports (snd (allocate_port m))) p)
   \<and> (\<forall>p msg m'. fst (allocate_port m) = Some p
          \<and> create_server nm ver mem url dl m = (Some (True, msg), m')
          \<longrightarrow> allocated_ports m' = dict_set (allocated_ports m) p nm)"
proof (intro conjI allI impI)
  show same: "snd (allocate_port m) = m" by (simp add: allocate_port_def)
  then show "allocate_port (snd (allocate_port m)) = allocate_port m" by simp
next
  fix p assume "fst (allocate_port m) = Some p"
  then show "\<not> dict_has (allocated_ports (snd (allocate_port m))) p"
    by (simp add: allocate_port_Some_unclaimed allocate_port_def)
next
  fix p msg m'
  assume "fst (allocate_port m) = Some p
          \<and> create_server nm ver mem url dl m = (Some (True, msg), m')"
  then show "allocated_ports m' = dict_set (allocated_ports m) p nm"
    using create_server_success_table by blast
qed

theorem allocate_port_is_query_witness:
  "fst (allocate_port example_fleet) = Some 25566
   \<and> fst (allocate_port (snd (allocate_port example_fleet))) = Some 25566
   \<and> \<not> dict_has (allocated_ports (snd (allocate_port example_fleet))) 25566
   \<and> allocated_ports (snd created_beta) = [(25565, ''alpha''), (25566, ''beta'')]"
proof -
  have picked: "fst (allocate_port example_fleet) = Some 25566" by code_simp
  have "fst created_beta
     = Some (True, ''Server '' @ quoted ''beta'' @ '' created successfully on port 25566'')"
    by code_simp
  then have created: "create_server ''beta'' ''modpack'' None (Some ''https://example.org/pack'')
       pack_download example_fleet
     = (Some (True, ''Server '' @ quoted ''beta'' @ '' created successfully on port 25566''),
        snd created_beta)"
    by (simp add: created_beta_def prod_eq_iff)
  have table: "dict_set (allocated_ports example_fleet) 25566 ''beta''
                 = [(25565, ''alpha''), (25566, ''beta'')]"
    by code_simp
  from allocate_port_is_query [of example_fleet "''beta''" "''modpack''" None
      "Some ''https://example.org/pack''" pack_download] picked created table
  show ?thesis by (metis (no_types, lifting))
qed

section \<open>Crash counting and the lock: evaluations\<close>

text \<open>
  C2 (evaluation). \<open>alpha\<close> has \<open>crash_count\<close> 0. Its process ends with code 1 inside the
  confirmation window of \<open>start_server\<close>. The monitor task that \<open>start_server\<close> created
  counts this end, and \<open>start_server\<close> counts it again after its sleep: the call returns
  the failure with the error output, the status is \<open>crashed\<close>, and \<open>crash_count\<close> is 2,
  whether the monitor takes its turn inside the window or after the call has returned.
  A requested stop of the running \<open>alpha\<close> leaves the status \<open>stopped\<close> and the count 0,
  and the next turn of the monitor, which \<open>stop_server\<close> did not cancel, sets the status
  to \<open>crashed\<close> and the count to 1.
\<close>

theorem crash_count_counts_twice:
  "crash_count_of example_fleet ''alpha'' = Some 0
   \<and> fst crashed_start = Inr (False, ''Server failed to start: boom'')
   \<and> status_of (snd crashed_start) ''alpha'' = Some (status_value CRASHED)
   \<and> crash_count_of (snd crashed_start) ''alpha'' = Some 2
   \<and> fst crashed_start_late_monitor = Inr (False, ''Server failed to start: boom'')
   \<and> crash_count_of (snd crashed_start_late_monitor) ''alpha'' = Some 1
   \<and> crash_count_of (run_events [Monitor_turn 0] (snd crashed_start_late_monitor)) ''alpha''
        = Some 2
   \<and> status_of running_fleet ''alpha'' = Some (status_value RUNNING)
   \<and> crash_count_of running_fleet ''alpha'' = Some 0
   \<and> fst stopped_alpha = Inr (True, ''Server '' @ quoted ''alpha'' @ '' stopped'')
   \<and> status_of (snd stopped_alpha) ''alpha'' = Some (status_value STOPPED)
   \<and> crash_count_of (snd stopped_alpha) ''alpha'' = Some 0
   \<and> status_of (run_events [Monitor_turn 0] (snd stopped_alpha)) ''alpha''
        = Some (status_value CRASHED)
   \<and> crash_count_of (run_events [Monitor_turn 0] (snd stopped_alpha)) ''alpha'' = Some 1"
  by code_simp

text \<open>
  For comparison with the stop above: \<open>delete_server\<close> cancels the monitor task of the
  server it removes, and a later turn of that task changes nothing.
\<close>

lemma delete_server_cancels_monitor:
  "fst deleted_alpha = Inr (True, ''Server '' @ quoted ''alpha'' @ '' deleted'')
   \<and> servers (snd deleted_alpha) = []
   \<and> allocated_ports (snd deleted_alpha) = []
   \<and> map task_done (tasks (snd deleted_alpha)) = [True]
   \<and> state_file (snd deleted_alpha) = Some (Json_file (JObj []))
   \<and> servers (run_events [Monitor_turn 0] (snd deleted_alpha)) = []
   \<and> state_file (run_events [Monitor_turn 0] (snd deleted_alpha)) = Some (Json_file (JObj []))"
  by code_simp

text \<open>
  C9 (evaluation). While \<open>create_server('beta', ...)\<close> waits for its download it holds
  the lock, and another \<open>create_server\<close> waits for the lock. \<open>start_server('alpha')\<close>
  entered at that moment does not wait: it spawns the process, sets the status to
  \<open>starting\<close> and rewrites the state file, with the lock still held by the creation.
  A second \<open>start_server('alpha')\<close> entered while the first sleeps passes the checks as
  well and spawns a second process for the same descriptor; both processes are alive.
\<close>

theorem start_server_ignores_lock:
  "lock creating_fleet
   \<and> fst (create_server_begin ''gamma'' ''1.20.4'' None None creating_fleet)
        = Create_waits_for_lock
   \<and> status_of creating_fleet ''alpha'' = Some (status_value STOPPED)
   \<and> fst start_during_create = Start_sleeps 0
   \<and> lock (snd start_during_create)
   \<and> status_of (snd start_during_create) ''alpha'' = Some (status_value STARTING)
   \<and> state_file (snd start_during_create) \<noteq> state_file creating_fleet
   \<and> fst double_start = Start_sleeps 1
   \<and> map proc_pid (procs (snd double_start)) = [4242, 4243]
   \<and> map returncode (procs (snd double_start)) = [None, None]
   \<and> dict_get (processes (snd double_start)) ''alpha'' = Some 1"
  by code_simp

section \<open>Restart counter\<close>

lemma restart_counts_modify_server:
  assumes "\<And>s. restart_count (f s) = restart_count s"
  shows "restart_counts (modify_server nm f m) = restart_counts m"
  using assms by (auto simp: restart_counts_def modify_server_def)

lemma restart_counts_save: "restart_counts (save_server_states m) = restart_counts m"
  by (simp add: restart_counts_def save_server_states_frame)

lemma restart_counts_process_exits:
  "restart_counts (process_exits h code err m) = restart_counts m"
  by (simp add: restart_counts_def process_exits_def)

lemma restart_counts_monitor_server_turn:
  "restart_counts (monitor_server_turn i m) = restart_counts m"
proof -
  have "restart_counts (modify_server nm mark_crashed m) = restart_counts m" for nm
    by (simp add: restart_counts_modify_server mark_crashed_def)
  then show ?thesis
    by (simp add: monitor_server_turn_def Let_def restart_counts_def save_server_states_frame)
qed

lemma restart_counts_run_events: "restart_counts (run_events es m) = restart_counts m"
proof (induction es arbitrary: m)
  case Nil
  show ?case by simp
next
  case (Cons e es)
  have "restart_counts (run_event e m) = restart_counts m"
    by (cases e) (simp_all add: restart_counts_process_exits restart_counts_monitor_server_turn)
  with Cons.IH [of "run_event e m"] show ?case by simp
qed

lemma restart_counts_start_server_begin:
  "restart_counts (snd (start_server_begin nm spawn now m)) = restart_counts m"
proof -
  have step: "restart_counts (modify_server nm
      (\<lambda>s. s\<lparr>pid := Some new_pid, status := status_value STARTING, last_started := Some now\<rparr>) m')
      = restart_counts m'" for new_pid m'
    by (rule restart_counts_modify_server) simp
  have servers_only: "restart_counts m' = restart_counts m" if "servers m' = servers m" for m'
    using that by (simp add: restart_counts_def)
  show ?thesis
    unfolding start_server_begin_def Let_def
    by (auto split: option.splits
        simp: servers_only save_server_states_frame restart_counts_def modify_server_def
          case_prod_beta)
qed

lemma restart_counts_start_server_end:
  "restart_counts (snd (start_server_end nm h m)) = restart_counts m"
  by (simp add: start_server_end_def restart_counts_save restart_counts_modify_server
      mark_crashed_def)

lemma restart_counts_start_server:
  "restart_counts (snd (start_server nm spawn now window m)) = restart_counts m"
proof (cases "start_server_begin nm spawn now m")
  case (Pair progress m1)
  have m1: "restart_counts m1 = restart_counts m"
    using restart_counts_start_server_begin [of nm spawn now m] Pair by simp
  show ?thesis
  proof (cases progress)
    case (Start_sleeps h)
    have "restart_counts (snd (start_server_end nm h (run_events window m1))) = restart_counts m"
      by (simp add: restart_counts_start_server_end restart_counts_run_events m1)
    with Pair Start_sleeps show ?thesis
      by (auto simp: start_server_def split: prod.splits)
  qed (use Pair m1 in \<open>simp_all add: start_server_def\<close>)
qed

lemma restart_counts_stop_server:
  "restart_counts (snd (stop_server nm window m)) = restart_counts m"
proof -
  have "restart_counts (snd (stop_server_finish nm m')) = restart_counts m'" for m'
    by (simp add: stop_server_finish_def restart_counts_save restart_counts_modify_server)
  then show ?thesis
    by (simp add: stop_server_def restart_counts_run_events split: option.splits)
qed

text \<open>
  C7, as the code has it. No operation assigns \<open>restart_count\<close>: a restart request leaves
  the restart counter of every descriptor as it was, whether the restart starts a new
  process, its stop phase fails, or its start phase fails, and whatever the processes and
  the monitors do while it sleeps.
\<close>

theorem restart_server_keeps_restart_count:
  "restart_counts (snd (restart_server nm stop_window settle spawn now start_window m))
     = restart_counts m"
proof (cases "stop_server nm stop_window m")
  case (Pair r m1)
  have m1: "restart_counts m1 = restart_counts m"
    using restart_counts_stop_server [of nm stop_window m] Pair by simp
  show ?thesis
  proof (cases r)
    case (Inl e)
    with Pair m1 show ?thesis by (simp add: restart_server_def)
  next
    case (Inr reply)
    obtain stopped msg where reply: "reply = (stopped, msg)" by (cases reply)
    show ?thesis
    proof (cases stopped)
      case False
      with Pair Inr reply m1 show ?thesis by (simp add: restart_server_def)
    next
      case True
      have "restart_counts (snd (start_server nm spawn now start_window (run_events settle m1)))
              = restart_counts m"
        by (simp add: restart_counts_start_server restart_counts_run_events m1)
      with Pair Inr reply True show ?thesis by (simp add: restart_server_def)
    qed
  qed
qed

text \<open>
  C7 as stated fails: the restart of the running \<open>alpha\<close> stops the old process and
  starts a new one that stays up, the request returns success, and \<open>restart_count\<close> is 0
  before and after.
\<close>

theorem restart_count_not_incremented:
  "status_of running_fleet ''alpha'' = Some (status_value RUNNING)
   \<and> restart_count_of running_fleet ''alpha'' = Some 0
   \<and> fst restarted_alpha = Inr (True, ''Server '' @ quoted ''alpha'' @ '' started'')
   \<and> status_of (snd restarted_alpha) ''alpha'' = Some (status_value RUNNING)
   \<and> map proc_pid (procs (snd restarted_alpha)) = [4242, 4243]
   \<and> restart_count_of (snd restarted_alpha) ''alpha'' = Some 0"
  by code_simp

section \<open>State store: properties\<close>

lemma ServerConfig_from_asdict: "ServerConfig_from (asdict s) = Inr s"
proof -
  have keys: "set (dict_keys (asdict s)) \<subseteq> set field_names"
    by (simp add: asdict_def dict_keys_def field_names_def)
  have fields:
    "\<And>d. field_str (asdict s) ''name'' d = Inr (name s)"
    "\<And>d. field_str (asdict s) ''version'' d = Inr (version s)"
    "\<And>d. field_int (asdict s) ''memory'' d = Inr (memory s)"
    "\<And>d. field_int (asdict s) ''port'' d = Inr (port s)"
    "field_opt_str (asdict s) ''modpack_url'' = Inr (modpack_url s)"
    "field_opt_str (asdict s) ''server_file_url'' = Inr (server_file_url s)"
    "\<And>d. field_str (asdict s) ''status'' d = Inr (status s)"
    "field_opt_int (asdict s) ''pid'' = Inr (pid s)"
    "field_opt_float (asdict s) ''last_started'' = Inr (last_started s)"
    "\<And>d. field_int (asdict s) ''restart_count'' d = Inr (restart_count s)"
    "\<And>d. field_int (asdict s) ''crash_count'' d = Inr (crash_count s)"
    by (simp_all add: asdict_def dict_get_def field_str_def field_int_def field_opt_str_def
        field_opt_int_def field_opt_float_def json_opt_def split: option.splits)
  show ?thesis
    unfolding ServerConfig_from_def using keys by (simp add: fields bind_result_def)
qed

lemma dict_set_new: "k \<notin> set (map fst d) \<Longrightarrow> dict_set d k v = d @ [(k, v)]"
  by (induction d) auto

lemma load_items_saved:
  assumes "distinct (map fst (servers m) @ map fst xs)"
  shows "\<exists>m'. load_items (map (\<lambda>(nm, server). (nm, JObj (asdict server))) xs) m = Inr m'
           \<and> servers m' = servers m @ xs"
  using assms
proof (induction xs arbitrary: m)
  case Nil
  show ?case by simp
next
  case (Cons x xs)
  obtain nm server where x: "x = (nm, server)" by (cases x)
  let ?m1 = "m\<lparr>servers := dict_set (servers m) nm server\<rparr>"
  let ?m2 = "if status server = status_value RUNNING
             then ?m1\<lparr>allocated_ports := dict_set (allocated_ports ?m1) (port server) nm\<rparr>
             else ?m1"
  from Cons.prems x have fresh: "nm \<notin> set (map fst (servers m))" by auto
  then have grown: "servers ?m2 = servers m @ [(nm, server)]"
    by (simp add: dict_set_new)
  with Cons.prems x have "distinct (map fst (servers ?m2) @ map fst xs)" by auto
  from Cons.IH [OF this] obtain m' where
    m': "load_items (map (\<lambda>(nm, server). (nm, JObj (asdict server))) xs) ?m2 = Inr m'"
      "servers m' = servers ?m2 @ xs"
    by blast
  have "load_items (map (\<lambda>(nm, server). (nm, JObj (asdict server))) (x # xs)) m = Inr m'"
    using m'(1) by (simp add: x ServerConfig_from_asdict Let_def)
  moreover have "servers m' = servers m @ x # xs"
    using m'(2) grown x by simp
  ultimately show ?case by blast
qed

text \<open>
  C8. For every fleet (a dictionary, so no name occurs twice), a manager that is set up
  on the disk left by \<open>save_server_states\<close> loads without error, and its descriptors are
  exactly the saved ones: the same names in the same order, every attribute equal.
\<close>

theorem save_load_roundtrip:
  assumes "distinct (dict_keys (servers m))"
  shows "\<exists>m'. init_manager (save_server_states m) = Inr m' \<and> servers m' = servers m"
proof -
  let ?start = "init_state (save_server_states m)"
  have on_disk: "state_file ?start = Some (Json_file (JObj
      (map (\<lambda>(nm, server). (nm, JObj (asdict server))) (servers m))))"
    by (simp add: init_state_def save_server_states_def json_dump_def open_w_def
        states_document_def)
  have empty: "servers ?start = []" by (simp add: init_state_def)
  with assms have "distinct (map fst (servers ?start) @ map fst (servers m))"
    by (simp add: dict_keys_def)
  from load_items_saved [OF this] empty obtain m' where
    "load_items (map (\<lambda>(nm, server). (nm, JObj (asdict server))) (servers m)) ?start = Inr m'"
    "servers m' = servers m"
    by auto
  then show ?thesis by (auto simp: init_manager_def load_server_states_def on_disk)
qed

theorem save_load_roundtrip_witness:
  "distinct (dict_keys (servers (snd created_beta)))
   \<and> (\<exists>m'. init_manager (save_server_states (snd created_beta)) = Inr m'
         \<and> servers m' = servers (snd created_beta))
   \<and> dict_keys (servers (snd created_beta)) = [''alpha'', ''beta'']"
proof -
  have names: "dict_keys (servers (snd created_beta)) = [''alpha'', ''beta'']"
    by code_simp
  then have "distinct (dict_keys (servers (snd created_beta)))" by simp
  with save_load_roundtrip [of "snd created_beta"] names show ?thesis by blast
qed

subsection \<open>What a save leaves on disk while it runs\<close>

lemma flush_states_prefix:
  "s \<in> set (flush_states written rest sizes) \<Longrightarrow>
     \<exists>k. k < length rest \<and> s = written @ take k rest"
proof (induction sizes arbitrary: written rest)
  case Nil
  then show ?case by simp
next
  case (Cons n sizes)
  show ?case
  proof (cases "length rest \<le> n")
    case True
    with Cons.prems show ?thesis by simp
  next
    case False
    with Cons.prems consider "s = written @ take n rest"
      | "s \<in> set (flush_states (written @ take n rest) (drop n rest) sizes)"
      by auto
    then show ?thesis
    proof cases
      case 1
      with False have "n < length rest \<and> s = written @ take n rest" by simp
      then show ?thesis by blast
    next
      case 2
      from Cons.IH [OF 2] obtain k where
        k: "k < length (drop n rest)" "s = (written @ take n rest) @ take k (drop n rest)"
        by blast
      have "take n rest @ take k (drop n rest) = take (n + k) rest"
        by (simp add: take_add)
      with k have "n + k < length rest \<and> s = written @ take (n + k) rest" by simp
      then show ?thesis by blast
    qed
  qed
qed

lemma json_text_object_nonempty: "json_text float_repr level (JObj members) \<noteq> []"
  by simp

lemma init_manager_partial:
  "init_manager (m\<lparr>state_file := Some (Partial_file s)\<rparr>) = Inl JSONDecodeError"
  by (simp add: init_manager_def init_state_def load_server_states_def)

text \<open>
  C1, as the code has it. \<open>save_server_states\<close> opens the state file itself for writing,
  which empties it, and then dumps the text into it; it uses no temporary file and no
  rename. When the save has completed, the file holds the document of the whole fleet
  and nothing else of the manager has changed. At every earlier moment, whatever the
  sizes in which the text reaches the disk, the disk shows a cut-off text: the emptied
  file first, then longer beginnings of the text, each shorter than the text. None of
  them is the saved file, and a manager set up on any of them fails to load with
  \<open>JSONDecodeError\<close>. A write of \<open>n\<close> characters that leaves text to be written is
  such a moment.
\<close>

theorem save_server_states_in_place:
  "save_server_states m = m\<lparr>state_file := Some (Json_file (states_document m))\<rparr>
   \<and> hd (save_server_states_trace float_repr sizes m) = m\<lparr>state_file := Some Empty_file\<rparr>
   \<and> last (save_server_states_trace float_repr sizes m) = save_server_states m
   \<and> (\<forall>st \<in> set (butlast (save_server_states_trace float_repr sizes m)).
         (\<exists>s. st = m\<lparr>state_file := Some (Partial_file s)\<rparr>
              \<and> length s < length (json_text float_repr 0 (states_document m))
              \<and> s = take (length s) (json_text float_repr 0 (states_document m)))
         \<and> st \<noteq> save_server_states m
         \<and> init_manager st = Inl JSONDecodeError)
   \<and> (\<forall>n. n < length (json_text float_repr 0 (states_document m)) \<longrightarrow>
         m\<lparr>state_file := Some (Partial_file (take n (json_text float_repr 0 (states_document m))))\<rparr>
           \<in> set (butlast (save_server_states_trace float_repr [n] m)))"
proof -
  let ?text = "json_text float_repr 0 (states_document m)"
  let ?partial = "\<lambda>s. m\<lparr>state_file := Some (Partial_file s)\<rparr>"
  let ?trace = "save_server_states_trace float_repr sizes m"
  have saved: "save_server_states m = m\<lparr>state_file := Some (Json_file (states_document m))\<rparr>"
    by (simp add: save_server_states_def json_dump_def open_w_def)
  have nonempty: "0 < length ?text"
    using json_text_object_nonempty [of float_repr 0] by (simp add: states_document_def)
  have before: "butlast (save_server_states_trace float_repr zs m)
      = ?partial [] # map ?partial (flush_states [] ?text zs)" for zs
    by (simp add: save_server_states_trace_def open_w_def butlast_append)
  have first: "hd ?trace = ?partial []"
    by (simp add: save_server_states_trace_def open_w_def)
  have final: "last ?trace = save_server_states m"
    by (simp add: save_server_states_trace_def save_server_states_def)
  have cut_off: "(\<exists>s. st = ?partial s \<and> length s < length ?text \<and> s = take (length s) ?text)
      \<and> st \<noteq> save_server_states m \<and> init_manager st = Inl JSONDecodeError"
    if "st \<in> set (butlast ?trace)" for st
  proof -
    from that before [of sizes] obtain s where
      st: "st = ?partial s" and s: "s = [] \<or> s \<in> set (flush_states [] ?text sizes)"
      by auto
    from s have "\<exists>k. k < length ?text \<and> s = take k ?text"
    proof
      assume "s = []"
      with nonempty show ?thesis by (intro exI [of _ 0]) simp
    next
      assume "s \<in> set (flush_states [] ?text sizes)"
      from flush_states_prefix [OF this] show ?thesis by simp
    qed
    then obtain k where k: "k < length ?text" "s = take k ?text" by blast
    then have "length s < length ?text \<and> s = take (length s) ?text" by simp
    moreover have "st \<noteq> save_server_states m"
    proof
      assume "st = save_server_states m"
      then have "state_file st = state_file (save_server_states m)" by simp
      with st saved show False by simp
    qed
    ultimately show ?thesis using st init_manager_partial by blast
  qed
  have admitted: "?partial (take n ?text) \<in> set (butlast (save_server_states_trace float_repr [n] m))"
    if "n < length ?text" for n
    using that by (simp add: before)
  from saved first final cut_off admitted show ?thesis by blast
qed

theorem save_server_states_in_place_witness:
  "during_flush \<in> set (butlast flushed_save)
   \<and> state_file during_flush
        = Some (Partial_file
            (take 200 (json_text whole_float_repr 0 (states_document running_fleet))))
   \<and> length (json_text whole_float_repr 0 (states_document running_fleet)) = 274
   \<and> during_flush \<noteq> save_server_states running_fleet
   \<and> init_manager during_flush = Inl JSONDecodeError
   \<and> last flushed_save = save_server_states running_fleet"
proof -
  have moment: "during_flush \<in> set (butlast flushed_save)" by code_simp
  have on_disk: "state_file during_flush
        = Some (Partial_file
            (take 200 (json_text whole_float_repr 0 (states_document running_fleet))))"
    by code_simp
  have size: "length (json_text whole_float_repr 0 (states_document running_fleet)) = 274"
    by code_simp
  from save_server_states_in_place [of running_fleet whole_float_repr "[100, 100]"] moment
  have "during_flush \<noteq> save_server_states running_fleet
      \<and> init_manager during_flush = Inl JSONDecodeError
      \<and> last flushed_save = save_server_states running_fleet"
    unfolding flushed_save_def by blast
  with moment on_disk size show ?thesis by blast
qed

text \<open>
  C1 as stated fails: during a save of the running fleet the disk shows a state file
  that is neither the file as it was before the save nor the file as it is after the
  save; it is empty, and a manager started on it does not load.
\<close>

theorem save_server_states_not_atomic:
  "state_file during_save = Some Empty_file
   \<and> state_file during_save \<noteq> state_file running_fleet
   \<and> state_file during_save \<noteq> state_file (save_server_states running_fleet)
   \<and> init_manager during_save = Inl JSONDecodeError
   \<and> state_file running_fleet = Some (Json_file (states_document running_fleet))"
  by code_simp

section \<open>Server properties: properties\<close>

lemma dict_get_set: "dict_get (dict_set d k v) k' = (if k' = k then Some v else dict_get d k')"
  by (induction d) (auto simp: dict_get_def)

lemma dict_keys_set:
  "dict_keys (dict_set d k v) = (if dict_has d k then dict_keys d else dict_keys d @ [k])"
  by (induction d) (force simp: dict_keys_def dict_has_def)+

lemma dict_set_distinct: "distinct (dict_keys d) \<Longrightarrow> distinct (dict_keys (dict_set d k v))"
  by (simp add: dict_keys_set) (simp add: dict_keys_def dict_has_def)

lemma dict_set_present:
  "distinct (dict_keys d) \<Longrightarrow> dict_has d k \<Longrightarrow>
     dict_set d k v = map (\<lambda>(k', v'). (k', if k' = k then v else v')) d"
proof (induction d)
  case Nil
  then show ?case by (simp add: dict_has_def)
next
  case (Cons kv d)
  obtain k0 v0 where kv: "kv = (k0, v0)" by (cases kv)
  show ?case
  proof (cases "k0 = k")
    case True
    with Cons.prems kv have "k \<notin> fst ` set d" by (simp add: dict_keys_def)
    then have "map (\<lambda>(k', v'). (k', if k' = k then v else v')) d = d"
      by (induction d) auto
    with True kv show ?thesis by simp
  next
    case False
    with Cons kv show ?thesis by (simp add: dict_keys_def dict_has_def)
  qed
qed

lemma read_properties_distinct:
  "distinct (dict_keys properties) \<Longrightarrow> distinct (dict_keys (read_properties ls properties))"
  by (induction ls arbitrary: properties) (simp_all add: Let_def dict_set_distinct)

lemma parse_properties_distinct: "distinct (dict_keys (parse_properties content))"
  using read_properties_distinct [of "[]" "split_lines [] content"]
  by (simp add: parse_properties_def dict_keys_def)

lemma properties_text_set_dir:
  "properties_text (m\<lparr>server_dirs := dict_set (server_dirs m) nm d\<rparr>) other
     = (if other = nm then server_properties d else properties_text m other)"
  using dict_get_set [of "server_dirs m" nm d other]
  by (simp add: properties_text_def)

text \<open>
  What a successful call writes, on the dictionary that the reading loop built: one line
  \<open>key=value\<close> for each key, the given key with the new value in its place or appended.
  A call for a server or a file that does not exist returns \<open>False\<close> and changes
  nothing.
\<close>

lemma update_server_properties_writes:
  "(\<forall>content. dict_has (servers m) nm \<and> properties_text m nm = Some content \<longrightarrow>
      (let old = parse_properties content;
           new = dict_set old key val;
           m' = snd (update_server_properties nm key val m)
       in fst (update_server_properties nm key val m)
          \<and> properties_text m' nm = Some (write_properties new)
          \<and> new = (if dict_has old key
                    then map (\<lambda>(k, v). (k, if k = key then val else v)) old
                    else old @ [(key, val)])
          \<and> dict_get new key = Some val
          \<and> (\<forall>k. k \<noteq> key \<longrightarrow> dict_get new k = dict_get old k)
          \<and> (\<forall>other. other \<noteq> nm \<longrightarrow> properties_text m' other = properties_text m other)
          \<and> servers m' = servers m \<and> allocated_ports m' = allocated_ports m
          \<and> state_file m' = state_file m))
   \<and> (\<not> dict_has (servers m) nm \<or> properties_text m nm = None
        \<longrightarrow> update_server_properties nm key val m = (False, m))"
proof (intro conjI allI impI)
  fix content
  assume pre: "dict_has (servers m) nm \<and> properties_text m nm = Some content"
  then obtain d where d: "dict_get (server_dirs m) nm = Some d" "server_properties d = Some content"
    by (auto simp: properties_text_def split: option.splits)
  let ?old = "parse_properties content"
  let ?new = "dict_set ?old key val"
  let ?m' = "m\<lparr>server_dirs := dict_set (server_dirs m) nm
               (d\<lparr>server_properties := Some (write_properties ?new)\<rparr>)\<rparr>"
  have run: "update_server_properties nm key val m = (True, ?m')"
    using pre d by (simp add: update_server_properties_def Let_def)
  have shape: "?new = (if dict_has ?old key
                    then map (\<lambda>(k, v). (k, if k = key then val else v)) ?old
                    else ?old @ [(key, val)])"
    using dict_set_present [OF parse_properties_distinct, of content key val]
      dict_set_new [of key ?old val]
    by (simp add: dict_has_def)
  have written: "properties_text ?m' nm = Some (write_properties ?new)"
    and others: "\<forall>other. other \<noteq> nm \<longrightarrow> properties_text ?m' other = properties_text m other"
    by (simp_all add: properties_text_set_dir)
  have lookups: "dict_get ?new key = Some val"
    "\<forall>k. k \<noteq> key \<longrightarrow> dict_get ?new k = dict_get ?old k"
    by (simp_all add: dict_get_set)
  show "let old = parse_properties content;
           new = dict_set old key val;
           m' = snd (update_server_properties nm key val m)
       in fst (update_server_properties nm key val m)
          \<and> properties_text m' nm = Some (write_properties new)
          \<and> new = (if dict_has old key
                    then map (\<lambda>(k, v). (k, if k = key then val else v)) old
                    else old @ [(key, val)])
          \<and> dict_get new key = Some val
          \<and> (\<forall>k. k \<noteq> key \<longrightarrow> dict_get new k = dict_get old k)
          \<and> (\<forall>other. other \<noteq> nm \<longrightarrow> properties_text m' other = properties_text m other)
          \<and> servers m' = servers m \<and> allocated_ports m' = allocated_ports m
          \<and> state_file m' = state_file m"
    unfolding Let_def run fst_conv snd_conv
    using shape written others lookups by simp
next
  assume "\<not> dict_has (servers m) nm \<or> properties_text m nm = None"
  then show "update_server_properties nm key val m = (False, m)"
    by (auto simp: update_server_properties_def properties_text_def split: option.splits)
qed

subsection \<open>Reading back what was written\<close>

lemma strip_unchanged:
  assumes "s \<noteq> []" "\<not> isspace (hd s)" "\<not> isspace (last s)"
  shows "strip s = s"
proof -
  from assms have front: "dropWhile isspace s = s" by (cases s) auto
  from assms have "rev s \<noteq> []" "\<not> isspace (hd (rev s))" by (simp_all add: hd_rev)
  then have "dropWhile isspace (rev s) = rev s" by (cases "rev s") auto
  with front show ?thesis by (simp add: strip_def)
qed

lemma isspace_equals: "\<not> isspace (CHR ''='')"
  by (simp add: isspace_def)

lemma clean_line:
  assumes "clean_key k" "clean_value v"
  shows "strip (k @ ''='' @ v) = k @ ''='' @ v"
    and "\<not> startswith (k @ ''='' @ v) ''#''"
    and "takeWhile (\<lambda>c. c \<noteq> CHR ''='') (k @ ''='' @ v) = k"
    and "tl (dropWhile (\<lambda>c. c \<noteq> CHR ''='') (k @ ''='' @ v)) = v"
proof -
  have first: "\<not> isspace (hd (k @ ''='' @ v))"
    using assms(1) by (cases k) (simp_all add: clean_key_def isspace_equals)
  have final: "\<not> isspace (last (k @ ''='' @ v))"
  proof (cases "rev v")
    case Nil
    then show ?thesis by (simp add: isspace_equals)
  next
    case (Cons c cs)
    then have "v = rev cs @ [c]" by (metis rev.simps(2) rev_rev_ident)
    with assms(2) Cons show ?thesis by (simp add: clean_value_def)
  qed
  from first final show "strip (k @ ''='' @ v) = k @ ''='' @ v"
    by (intro strip_unchanged) simp_all
  show "\<not> startswith (k @ ''='' @ v) ''#''"
    using assms(1) by (cases k) (simp_all add: clean_key_def startswith_def)
  have no_eq: "\<forall>c \<in> set k. c \<noteq> CHR ''=''"
    using assms(1) by (auto simp: clean_key_def)
  then show "takeWhile (\<lambda>c. c \<noteq> CHR ''='') (k @ ''='' @ v) = k"
    by (simp add: takeWhile_append2)
  from no_eq show "tl (dropWhile (\<lambda>c. c \<noteq> CHR ''='') (k @ ''='' @ v)) = v"
    by (simp add: dropWhile_append2)
qed

lemma split_lines_line:
  assumes "\<not> list_ex line_break s"
  shows "split_lines acc (s @ newline # rest) = (rev acc @ s) # split_lines [] rest"
  using assms
  by (induction s arbitrary: acc) (simp_all add: newline_def line_break_def)

lemma split_lines_written:
  assumes "clean_properties d"
  shows "split_lines [] (write_properties d) = map (\<lambda>(k, v). k @ ''='' @ v) d @ [[]]"
  using assms
proof (induction d)
  case Nil
  show ?case by (simp add: write_properties_def)
next
  case (Cons kv d)
  obtain k v where kv: "kv = (k, v)" by (cases kv)
  from Cons.prems kv have "\<not> list_ex line_break (k @ ''='' @ v)"
    by (auto simp: clean_properties_def clean_key_def clean_value_def line_break_def list_ex_iff)
  from split_lines_line [OF this, of "[]" "write_properties d"]
  have "split_lines [] (write_properties (kv # d))
          = (k @ ''='' @ v) # split_lines [] (write_properties d)"
    by (simp add: write_properties_def kv)
  with Cons kv show ?case by (simp add: clean_properties_def)
qed

lemma read_properties_append:
  "read_properties (xs @ ys) p = read_properties ys (read_properties xs p)"
  by (induction xs arbitrary: p) (simp_all add: Let_def)

lemma read_properties_written:
  assumes "clean_properties d" "distinct (dict_keys p @ dict_keys d)"
  shows "read_properties (map (\<lambda>(k, v). k @ ''='' @ v) d) p = p @ d"
  using assms
proof (induction d arbitrary: p)
  case Nil
  show ?case by simp
next
  case (Cons kv d)
  obtain k v where kv: "kv = (k, v)" by (cases kv)
  from Cons.prems(1) kv have clean: "clean_key k" "clean_value v" "clean_properties d"
    by (simp_all add: clean_properties_def)
  from Cons.prems(2) kv have fresh: "k \<notin> set (map fst p)"
    by (auto simp: dict_keys_def)
  from Cons.prems(2) kv have "distinct (dict_keys (p @ [(k, v)]) @ dict_keys d)"
    by (auto simp: dict_keys_def)
  from Cons.IH [OF clean(3) this]
  have "read_properties (map (\<lambda>(k, v). k @ ''='' @ v) d) (p @ [(k, v)]) = p @ (k, v) # d"
    by simp
  then show ?case
    using clean_line [OF clean(1,2)] fresh by (simp add: kv Let_def dict_set_new)
qed

lemma parse_written:
  assumes "clean_properties d" "distinct (dict_keys d)"
  shows "parse_properties (write_properties d) = d"
proof -
  have "read_properties [[]] d = d" by (simp add: Let_def strip_def)
  moreover have "read_properties (map (\<lambda>(k, v). k @ ''='' @ v) d) [] = d"
    using read_properties_written [OF assms(1), of "[]"] assms(2)
    by (simp add: dict_keys_def)
  ultimately show ?thesis
    by (simp add: parse_properties_def split_lines_written [OF assms(1)]
        read_properties_append)
qed

lemma split_lines_no_break:
  assumes "\<not> list_ex line_break acc"
  shows "\<forall>l \<in> set (split_lines acc s). \<not> list_ex line_break l"
  using assms
proof (induction s arbitrary: acc)
  case Nil
  then show ?case by (simp add: list_ex_iff)
next
  case (Cons c cs)
  show ?case
  proof (cases "line_break c")
    case True
    have "\<not> list_ex line_break []" by simp
    from Cons.IH [OF this] Cons.prems True show ?thesis
      by (simp add: line_break_def list_ex_iff)
  next
    case False
    with Cons.prems have "\<not> list_ex line_break (c # acc)" by simp
    from Cons.IH [OF this] False show ?thesis by (simp add: line_break_def)
  qed
qed

lemma set_strip: "set (strip s) \<subseteq> set s"
proof -
  have "set (dropWhile isspace (rev (dropWhile isspace s))) \<subseteq> set (rev (dropWhile isspace s))"
    by (rule subsetI) (rule set_dropWhileD)
  also have "\<dots> \<subseteq> set s" by (auto dest: set_dropWhileD)
  finally show ?thesis by (simp add: strip_def)
qed

lemma set_tl_subset: "set (tl xs) \<subseteq> set xs"
  by (cases xs) auto

lemma last_tl_nonempty: "tl xs \<noteq> [] \<Longrightarrow> last (tl xs) = last xs"
  by (cases xs) auto

lemma last_dropWhile_nonempty: "dropWhile P xs \<noteq> [] \<Longrightarrow> last (dropWhile P xs) = last xs"
  by (metis last_appendR takeWhile_dropWhile_id)

lemma strip_ends:
  assumes "strip s \<noteq> []"
  shows "\<not> isspace (hd (strip s))" and "\<not> isspace (last (strip s))"
proof -
  let ?a = "dropWhile isspace s"
  let ?b = "dropWhile isspace (rev ?a)"
  from assms have b: "?b \<noteq> []" by (simp add: strip_def)
  have a: "?a \<noteq> []"
  proof
    assume "?a = []"
    then have "rev ?a = []" by (simp only: rev.simps)
    then have "?b = []" by (simp only: dropWhile.simps)
    with b show False by (rule notE)
  qed
  have "hd (strip s) = last ?b" using b by (simp add: strip_def hd_rev)
  also have "\<dots> = last (rev ?a)" using b by (rule last_dropWhile_nonempty)
  also have "\<dots> = hd ?a" using a by (simp add: last_rev)
  finally show "\<not> isspace (hd (strip s))" using a by (simp add: hd_dropWhile)
  have "last (strip s) = hd ?b" using b by (simp add: strip_def last_rev)
  then show "\<not> isspace (last (strip s))" using b by (simp add: hd_dropWhile)
qed

lemma rev_head_spaceless:
  assumes "xs \<noteq> []" "\<not> isspace (last xs)"
  shows "case rev xs of [] \<Rightarrow> True | c # _ \<Rightarrow> \<not> isspace c"
proof (cases "rev xs")
  case Nil
  then show ?thesis by simp
next
  case (Cons c cs)
  then have "xs = rev cs @ [c]" by (metis rev.simps(2) rev_rev_ident)
  with assms(2) Cons show ?thesis by simp
qed

lemma clean_assignment:
  assumes line: "CHR ''='' \<in> set line" "\<not> startswith line ''#''"
    and ends: "\<not> isspace (hd line)" "\<not> isspace (last line)"
    and breaks: "\<not> list_ex line_break line"
  shows "clean_key (takeWhile (\<lambda>c. c \<noteq> CHR ''='') line)"
    and "clean_value (tl (dropWhile (\<lambda>c. c \<noteq> CHR ''='') line))"
proof -
  let ?k = "takeWhile (\<lambda>c. c \<noteq> CHR ''='') line"
  let ?rest = "dropWhile (\<lambda>c. c \<noteq> CHR ''='') line"
  have "set ?k \<subseteq> set line" by (auto dest: set_takeWhileD)
  with breaks have k_breaks: "\<not> list_ex line_break ?k" by (auto simp: list_ex_iff)
  have k_eq: "CHR ''='' \<notin> set ?k" by (auto dest: set_takeWhileD)
  have k_head: "case ?k of [] \<Rightarrow> True | c # _ \<Rightarrow> \<not> isspace c \<and> c \<noteq> CHR ''#''"
  proof (cases line)
    case Nil
    then show ?thesis by simp
  next
    case (Cons c cs)
    with line(2) ends(1) show ?thesis by (simp add: startswith_def)
  qed
  from k_eq k_breaks k_head show "clean_key ?k" by (simp add: clean_key_def)
  have rest: "?rest \<noteq> []"
  proof
    assume "?rest = []"
    then have "\<forall>c \<in> set line. c \<noteq> CHR ''=''" by (simp only: dropWhile_eq_Nil_conv)
    with line(1) show False by blast
  qed
  have "set (tl ?rest) \<subseteq> set ?rest" by (rule set_tl_subset)
  also have "\<dots> \<subseteq> set line" by (rule subsetI) (rule set_dropWhileD)
  finally have "set (tl ?rest) \<subseteq> set line" .
  with breaks have v_breaks: "\<not> list_ex line_break (tl ?rest)" by (auto simp: list_ex_iff)
  have v_end: "case rev (tl ?rest) of [] \<Rightarrow> True | c # _ \<Rightarrow> \<not> isspace c"
  proof (cases "tl ?rest = []")
    case True
    then show ?thesis by simp
  next
    case False
    then have "last (tl ?rest) = last ?rest" by (rule last_tl_nonempty)
    also have "\<dots> = last line" using rest by (rule last_dropWhile_nonempty)
    finally have spaceless: "\<not> isspace (last (tl ?rest))" using ends(2) by simp
    with False show ?thesis by (rule rev_head_spaceless)
  qed
  from v_breaks v_end show "clean_value (tl ?rest)" by (simp add: clean_value_def)
qed

lemma clean_properties_dict_set:
  "clean_properties d \<Longrightarrow> clean_key k \<Longrightarrow> clean_value v \<Longrightarrow> clean_properties (dict_set d k v)"
  by (induction d) (auto simp: clean_properties_def)

lemma read_properties_clean:
  assumes "\<forall>l \<in> set ls. \<not> list_ex line_break l" "clean_properties p"
  shows "clean_properties (read_properties ls p)"
  using assms
proof (induction ls arbitrary: p)
  case Nil
  then show ?case by simp
next
  case (Cons l ls)
  let ?line = "strip l"
  show ?case
  proof (cases "CHR ''='' \<in> set ?line \<and> \<not> startswith ?line ''#''")
    case False
    with Cons show ?thesis by (auto simp: Let_def)
  next
    case True
    then have nonempty: "?line \<noteq> []" by auto
    from Cons.prems(1) set_strip [of l] have "\<not> list_ex line_break ?line"
      by (auto simp: list_ex_iff)
    with True strip_ends [OF nonempty]
    have "clean_key (takeWhile (\<lambda>c. c \<noteq> CHR ''='') ?line)"
      and "clean_value (tl (dropWhile (\<lambda>c. c \<noteq> CHR ''='') ?line))"
      by (simp_all add: clean_assignment)
    with Cons.prems(2)
    have "clean_properties (dict_set p (takeWhile (\<lambda>c. c \<noteq> CHR ''='') ?line)
            (tl (dropWhile (\<lambda>c. c \<noteq> CHR ''='') ?line)))"
      by (simp add: clean_properties_dict_set)
    with Cons.IH Cons.prems(1) True show ?thesis by (simp add: Let_def)
  qed
qed

lemma parse_properties_clean: "clean_properties (parse_properties content)"
proof -
  have "\<forall>l \<in> set (split_lines [] content). \<not> list_ex line_break l"
    by (rule split_lines_no_break) simp
  moreover have "clean_properties []" by (simp add: clean_properties_def)
  ultimately show ?thesis
    unfolding parse_properties_def by (rule read_properties_clean)
qed

text \<open>
  C6, as the code has it. Take a key without \<open>=\<close> and without line breaks that does
  not begin with white space or \<open>#\<close>, and a value without line breaks that does not end
  with white space. When the server exists and its \<open>server.properties\<close> exists,
  \<open>update_server_properties\<close> returns \<open>True\<close>, and reading the file it wrote gives the
  assignments that reading the file gave before, in the same order, with only the value
  of the given key changed, or with the given key appended last when the file did not
  assign it. No other server's file and nothing else of the manager changes. When the
  server does not exist or the file does not exist the call returns \<open>False\<close> and the
  manager is unchanged, whatever the key and the value.
\<close>

theorem update_server_properties_clean_key:
  "(\<forall>content. dict_has (servers m) nm \<and> properties_text m nm = Some content
        \<and> clean_key key \<and> clean_value val \<longrightarrow>
      (let old = parse_properties content;
           m' = snd (update_server_properties nm key val m)
       in fst (update_server_properties nm key val m)
          \<and> read_back m' nm
               = Some (if dict_has old key
                       then map (\<lambda>(k, v). (k, if k = key then val else v)) old
                       else old @ [(key, val)])
          \<and> (\<forall>other. other \<noteq> nm \<longrightarrow> properties_text m' other = properties_text m other)
          \<and> servers m' = servers m \<and> allocated_ports m' = allocated_ports m
          \<and> state_file m' = state_file m))
   \<and> (\<not> dict_has (servers m) nm \<or> properties_text m nm = None
        \<longrightarrow> update_server_properties nm key val m = (False, m))"
proof (intro conjI allI impI)
  fix content
  assume pre: "dict_has (servers m) nm \<and> properties_text m nm = Some content
        \<and> clean_key key \<and> clean_value val"
  let ?old = "parse_properties content"
  let ?new = "dict_set ?old key val"
  let ?m' = "snd (update_server_properties nm key val m)"
  note written = update_server_properties_writes
    [of m nm key val, THEN conjunct1, rule_format, of content, unfolded Let_def]
  from pre written have facts: "fst (update_server_properties nm key val m)"
    "properties_text ?m' nm = Some (write_properties ?new)"
    "?new = (if dict_has ?old key
             then map (\<lambda>(k, v). (k, if k = key then val else v)) ?old
             else ?old @ [(key, val)])"
    "\<forall>other. other \<noteq> nm \<longrightarrow> properties_text ?m' other = properties_text m other"
    "servers ?m' = servers m" "allocated_ports ?m' = allocated_ports m"
    "state_file ?m' = state_file m"
    by blast+
  have "parse_properties (write_properties ?new) = ?new"
    using pre
    by (intro parse_written clean_properties_dict_set parse_properties_clean
        dict_set_distinct parse_properties_distinct) simp_all
  with facts(2) have "read_back ?m' nm = Some ?new" by (simp add: read_back_def)
  with facts(3) have reread: "read_back ?m' nm
      = Some (if dict_has ?old key
              then map (\<lambda>(k, v). (k, if k = key then val else v)) ?old
              else ?old @ [(key, val)])"
    by simp
  show "let old = parse_properties content;
           m' = snd (update_server_properties nm key val m)
       in fst (update_server_properties nm key val m)
          \<and> read_back m' nm
               = Some (if dict_has old key
                       then map (\<lambda>(k, v). (k, if k = key then val else v)) old
                       else old @ [(key, val)])
          \<and> (\<forall>other. other \<noteq> nm \<longrightarrow> properties_text m' other = properties_text m other)
          \<and> servers m' = servers m \<and> allocated_ports m' = allocated_ports m
          \<and> state_file m' = state_file m"
    unfolding Let_def using facts(1,4-7) reread by blast
next
  assume "\<not> dict_has (servers m) nm \<or> properties_text m nm = None"
  then show "update_server_properties nm key val m = (False, m)"
    by (auto simp: update_server_properties_def properties_text_def split: option.splits)
qed

theorem update_server_properties_clean_key_witness:
  "dict_has (servers example_fleet) ''alpha''
   \<and> properties_text example_fleet ''alpha'' = Some alpha_properties
   \<and> read_back example_fleet ''alpha''
        = Some [(''motd'', ''hello''), (''server-port'', ''25565'')]
   \<and> clean_key ''server-port'' \<and> clean_value ''25570''
   \<and> clean_key ''difficulty'' \<and> clean_value ''hard''
   \<and> fst (update_server_properties ''alpha'' ''server-port'' ''25570'' example_fleet)
   \<and> read_back (alpha_update ''server-port'' ''25570'') ''alpha''
        = Some [(''motd'', ''hello''), (''server-port'', ''25570'')]
   \<and> read_back (alpha_update ''difficulty'' ''hard'') ''alpha''
        = Some [(''motd'', ''hello''), (''server-port'', ''25565''), (''difficulty'', ''hard'')]
   \<and> \<not> dict_has (servers example_fleet) ''omega''
   \<and> update_server_properties ''omega'' ''motd'' ''x'' example_fleet = (False, example_fleet)"
proof -
  have known: "dict_has (servers example_fleet) ''alpha''" by code_simp
  have content: "properties_text example_fleet ''alpha'' = Some alpha_properties" by code_simp
  have before: "read_back example_fleet ''alpha''
        = Some [(''motd'', ''hello''), (''server-port'', ''25565'')]"
    by code_simp
  have clean: "clean_key ''server-port''" "clean_value ''25570''"
    "clean_key ''difficulty''" "clean_value ''hard''"
    by code_simp+
  have unknown: "\<not> dict_has (servers example_fleet) ''omega''" by code_simp
  have has: "dict_has (parse_properties alpha_properties) ''server-port''"
    "\<not> dict_has (parse_properties alpha_properties) ''difficulty''"
    by code_simp+
  note present = update_server_properties_clean_key
    [of example_fleet "''alpha''" "''server-port''" "''25570''", THEN conjunct1, rule_format,
     of alpha_properties, unfolded Let_def]
  note fresh = update_server_properties_clean_key
    [of example_fleet "''alpha''" "''difficulty''" "''hard''", THEN conjunct1, rule_format,
     of alpha_properties, unfolded Let_def]
  note missing = update_server_properties_clean_key
    [of example_fleet "''omega''" "''motd''" "''x''", THEN conjunct2, rule_format,
     OF disjI1, OF unknown]
  have set_port: "map (\<lambda>(k, v). (k, if k = ''server-port'' then ''25570'' else v))
        (parse_properties alpha_properties)
      = [(''motd'', ''hello''), (''server-port'', ''25570'')]"
    by code_simp
  have add_difficulty: "parse_properties alpha_properties @ [(''difficulty'', ''hard'')]
      = [(''motd'', ''hello''), (''server-port'', ''25565''), (''difficulty'', ''hard'')]"
    by code_simp
  from present known content clean(1,2)
  have "fst (update_server_properties ''alpha'' ''server-port'' ''25570'' example_fleet)"
    and "read_back (alpha_update ''server-port'' ''25570'') ''alpha''
        = Some [(''motd'', ''hello''), (''server-port'', ''25570'')]"
    unfolding alpha_update_def by (simp_all only: has if_True set_port simp_thms)
  moreover from fresh known content clean(3,4)
  have "read_back (alpha_update ''difficulty'' ''hard'') ''alpha''
        = Some [(''motd'', ''hello''), (''server-port'', ''25565''), (''difficulty'', ''hard'')]"
    unfolding alpha_update_def by (simp only: has if_False add_difficulty simp_thms)
  ultimately show ?thesis using known content before clean unknown missing by blast
qed

text \<open>
  C6 as stated fails for other keys and values. In the file of \<open>alpha\<close>, \<open>motd\<close> is
  \<open>hello\<close>. After an update of the key \<open>motd=x\<close> to \<open>y\<close> the file holds the added line
  \<open>motd=x=y\<close>, and reading it gives \<open>motd\<close> the value \<open>x=y\<close>. The same happens to
  \<open>motd\<close> through a key that begins with white space, a key with a line break and a
  value with a line break. A key that begins with \<open>#\<close> is not read back at all, and a
  value that ends with white space is read back without it.
\<close>

theorem update_server_properties_unclean_key:
  "read_back example_fleet ''alpha'' = Some [(''motd'', ''hello''), (''server-port'', ''25565'')]
   \<and> fst (update_server_properties ''alpha'' ''motd=x'' ''y'' example_fleet)
   \<and> properties_text (alpha_update ''motd=x'' ''y'') ''alpha''
        = Some (alpha_properties @ ''motd=x=y'' @ [newline])
   \<and> read_back (alpha_update ''motd=x'' ''y'') ''alpha''
        = Some [(''motd'', ''x=y''), (''server-port'', ''25565'')]
   \<and> read_back (alpha_update '' motd'' ''y'') ''alpha''
        = Some [(''motd'', ''y''), (''server-port'', ''25565'')]
   \<and> read_back (alpha_update (''level'' @ [newline] @ ''motd'') ''y'') ''alpha''
        = Some [(''motd'', ''y''), (''server-port'', ''25565'')]
   \<and> read_back (alpha_update ''difficulty'' (''hard'' @ [newline] @ ''motd=bye'')) ''alpha''
        = Some [(''motd'', ''bye''), (''server-port'', ''25565''), (''difficulty'', ''hard'')]
   \<and> read_back (alpha_update ''#difficulty'' ''hard'') ''alpha''
        = Some [(''motd'', ''hello''), (''server-port'', ''25565'')]
   \<and> read_back (alpha_update ''difficulty'' ''hard '') ''alpha''
        = Some [(''motd'', ''hello''), (''server-port'', ''25565''), (''difficulty'', ''hard'')]"
  by code_simp

end
